theory Spec2Isabelle
  imports Complex_Main "HOL-Library.AList" "HOL-Library.Sublist" "HOL-Library.Word"
begin

section \<open>Strings\<close>

text \<open>
  A JavaScript string is a sequence of UTF-16 code units: \<^verbatim>\<open>length\<close> counts them,
  \<^verbatim>\<open>===\<close> and \<^verbatim>\<open>includes\<close> compare them.  \<open>str\<close> writes the ASCII text of a literal
  of the source as such a string.
\<close>

type_synonym jsstring = "16 word list"

definition unit_of :: "char \<Rightarrow> 16 word" where
  "unit_of c = of_nat (of_char c)"

definition str :: "string \<Rightarrow> jsstring" where
  "str s = map unit_of s"

text \<open>
  The white space that \<^verbatim>\<open>String.prototype.trim\<close> and the conversion of a string to a
  number strip: the white space and line terminator code points of the language
  standard (tab, line feed, vertical tab, form feed, carriage return, space, no-break
  space, the byte order mark, the line and paragraph separators, and the space
  separators of Unicode).
\<close>

definition is_ws :: "16 word \<Rightarrow> bool" where
  "is_ws c =
     (c \<in> {0x0009, 0x000A, 0x000B, 0x000C, 0x000D, 0x0020, 0x00A0, 0x1680, 0x2028, 0x2029,
             0x202F, 0x205F, 0x3000, 0xFEFF}
      \<or> (0x2000 \<le> c \<and> c \<le> 0x200A))"

definition js_trim :: "jsstring \<Rightarrow> jsstring" where
  "js_trim s = rev (dropWhile is_ws (rev (dropWhile is_ws s)))"

text \<open>
  \<^verbatim>\<open>String.prototype.toUpperCase\<close> and \<^verbatim>\<open>toLowerCase\<close> follow the case mappings of
  Unicode, which can change the length of a string and depend on context, and
  \<^verbatim>\<open>Number.prototype.toLocaleString\<close> follows the locale of the host.  The three are
  parameters of the model.
\<close>

record Runtime =
  toUpperCase :: "jsstring \<Rightarrow> jsstring"
  toLowerCase :: "jsstring \<Rightarrow> jsstring"
  toLocaleString :: "rat \<Rightarrow> jsstring"

definition str_includes :: "jsstring \<Rightarrow> jsstring \<Rightarrow> bool" where
  "str_includes s t = sublist t s"

fun join :: "jsstring \<Rightarrow> jsstring list \<Rightarrow> jsstring" where
  "join sep [] = []"
| "join sep [x] = x"
| "join sep (x # y # ys) = x @ sep @ join sep (y # ys)"

definition backslash :: "16 word" where
  "backslash = unit_of (CHR 0x5C)"

definition newline :: "16 word" where
  "newline = unit_of (CHR 0x0A)"

section \<open>JSON values as the JavaScript runtime sees them\<close>

text \<open>
  The World Bank API answers with JSON, and \<^verbatim>\<open>index.ts\<close> inspects the shape of the
  parsed body at run time (\<^verbatim>\<open>Array.isArray\<close>, \<^verbatim>\<open>length\<close>, truthiness of
  \<^verbatim>\<open>firstItem.message\<close>, \<^verbatim>\<open>paginationInfo.pages\<close>).  The envelope is therefore
  modelled as an untyped JSON tree.  The payload rows are read through the interfaces of
  \<^verbatim>\<open>types.ts\<close> (\<^verbatim>\<open>Country\<close>, \<^verbatim>\<open>Indicator\<close>, \<^verbatim>\<open>DataPoint\<close>): an object that has
  such an interface is the leaf \<open>JRec\<close>, with the type parameter \<open>'a\<close> standing for the
  type parameter \<^verbatim>\<open>T\<close> of the source.  \<open>JObj\<close> is an object read by property name
  (pagination metadata, error payloads); its list holds the properties in the order of
  the JSON text, and a repeated key is read at its last occurrence, as
  \<^verbatim>\<open>JSON.parse\<close> does.  JSON numbers are exact rationals.
\<close>

datatype 'a json =
    JNull
  | JBool bool
  | JNum rat
  | JStr jsstring
  | JArr "'a json list"
  | JObj "(jsstring \<times> 'a json) list"
  | JRec 'a

text \<open>The falsy values among JSON values: \<^verbatim>\<open>null\<close>, \<^verbatim>\<open>false\<close>, \<^verbatim>\<open>0\<close>, \<^verbatim>\<open>""\<close>.\<close>

fun truthy :: "'a json \<Rightarrow> bool" where
  "truthy JNull = False"
| "truthy (JBool b) = b"
| "truthy (JNum q) = (q \<noteq> 0)"
| "truthy (JStr s) = (s \<noteq> [])"
| "truthy (JArr xs) = True"
| "truthy (JObj kvs) = True"
| "truthy (JRec r) = True"

text \<open>
  \<^verbatim>\<open>v.name\<close> for a property name that no prototype defines (\<^verbatim>\<open>message\<close>,
  \<^verbatim>\<open>pages\<close>): the own property of an object, \<^verbatim>\<open>undefined\<close> (\<open>None\<close>) on every
  other value that is not \<^verbatim>\<open>null\<close>.  The interfaces of \<^verbatim>\<open>types.ts\<close> declare neither
  name, so a \<open>JRec\<close> has none.  Reading a property of \<^verbatim>\<open>null\<close> throws a
  \<^verbatim>\<open>TypeError\<close>.
\<close>

datatype thrown = TypeError

fun own_prop :: "jsstring \<Rightarrow> 'a json \<Rightarrow> 'a json option" where
  "own_prop k (JObj kvs) = map_of (rev kvs) k"
| "own_prop k v = None"

fun get_prop :: "'a json \<Rightarrow> jsstring \<Rightarrow> thrown + 'a json option" where
  "get_prop JNull k = Inl TypeError"
| "get_prop v k = Inr (own_prop k v)"

fun truthy_opt :: "'a json option \<Rightarrow> bool" where
  "truthy_opt None = False"
| "truthy_opt (Some v) = truthy v"

fun isArray :: "'a json option \<Rightarrow> bool" where
  "isArray (Some (JArr xs)) = True"
| "isArray v = False"

subsection \<open>Coercion to a number\<close>

text \<open>
  The loop of \<^verbatim>\<open>getCompleteList\<close> evaluates \<^verbatim>\<open>currentPage >= paginationInfo.pages\<close>
  on whatever the metadata holds, so the comparison coerces its right operand with
  \<^verbatim>\<open>ToNumber\<close>.  \<open>StringToNumber\<close> follows the grammar of the language standard:
  surrounding white space is dropped, the empty string is \<open>0\<close>, a decimal literal may
  carry a sign, a fraction and an exponent, \<^verbatim>\<open>Infinity\<close> may carry a sign, and the
  prefixes \<^verbatim>\<open>0x\<close>, \<^verbatim>\<open>0o\<close>, \<^verbatim>\<open>0b\<close> take no sign.
\<close>

datatype jsnum = NaN | Fin rat | PosInf | NegInf

definition digit_of :: "16 word \<Rightarrow> nat option" where
  "digit_of c =
     (let n = unat c in
      if 48 \<le> n \<and> n \<le> 57 then Some (n - 48)
      else if 97 \<le> n \<and> n \<le> 102 then Some (n - 87)
      else if 65 \<le> n \<and> n \<le> 70 then Some (n - 55)
      else None)"

definition is_digit :: "nat \<Rightarrow> 16 word \<Rightarrow> bool" where
  "is_digit b c = (case digit_of c of None \<Rightarrow> False | Some d \<Rightarrow> d < b)"

definition digits_value :: "nat \<Rightarrow> jsstring \<Rightarrow> nat" where
  "digits_value b s = foldl (\<lambda>acc c. acc * b + (case digit_of c of None \<Rightarrow> 0 | Some d \<Rightarrow> d)) 0 s"

definition all_digits :: "nat \<Rightarrow> jsstring \<Rightarrow> bool" where
  "all_digits b s = (s \<noteq> [] \<and> list_all (is_digit b) s)"

definition signed_integer :: "jsstring \<Rightarrow> int option" where
  "signed_integer s =
     (case s of
        c # d \<Rightarrow>
          if c = unit_of CHR ''+'' then (if all_digits 10 d then Some (int (digits_value 10 d)) else None)
          else if c = unit_of CHR ''-'' then (if all_digits 10 d then Some (- int (digits_value 10 d)) else None)
          else if all_digits 10 s then Some (int (digits_value 10 s)) else None
      | [] \<Rightarrow> None)"

definition exponent_part :: "jsstring \<Rightarrow> int option" where
  "exponent_part s =
     (case s of
        [] \<Rightarrow> Some 0
      | c # t \<Rightarrow> if c = unit_of CHR ''e'' \<or> c = unit_of CHR ''E'' then signed_integer t else None)"

definition scale10 :: "nat \<Rightarrow> int \<Rightarrow> rat" where
  "scale10 m e = (if 0 \<le> e then of_nat m * 10 ^ nat e else of_nat m / 10 ^ nat (- e))"

definition unsigned_decimal :: "jsstring \<Rightarrow> jsnum" where
  "unsigned_decimal s =
     (if s = str ''Infinity'' then PosInf
      else
        let ip = takeWhile (is_digit 10) s;
            r1 = dropWhile (is_digit 10) s;
            fp = (case r1 of c # t \<Rightarrow> if c = unit_of CHR ''.'' then takeWhile (is_digit 10) t else [] | [] \<Rightarrow> []);
            r2 = (case r1 of c # t \<Rightarrow> if c = unit_of CHR ''.'' then dropWhile (is_digit 10) t else r1 | [] \<Rightarrow> [])
        in if ip = [] \<and> fp = [] then NaN
           else (case exponent_part r2 of
                   None \<Rightarrow> NaN
                 | Some e \<Rightarrow> Fin (scale10 (digits_value 10 (ip @ fp)) (e - int (length fp)))))"

fun negate :: "jsnum \<Rightarrow> jsnum" where
  "negate NaN = NaN"
| "negate (Fin q) = Fin (- q)"
| "negate PosInf = NegInf"
| "negate NegInf = PosInf"

definition radix_literal :: "nat \<Rightarrow> jsstring \<Rightarrow> jsnum" where
  "radix_literal b s = (if all_digits b s then Fin (of_nat (digits_value b s)) else NaN)"

definition StringToNumber :: "jsstring \<Rightarrow> jsnum" where
  "StringToNumber s =
     (let t = js_trim s in
      case t of
        [] \<Rightarrow> Fin 0
      | c # u \<Rightarrow>
          if c = unit_of CHR ''+'' then unsigned_decimal u
          else if c = unit_of CHR ''-'' then negate (unsigned_decimal u)
          else if c = unit_of CHR ''0'' \<and> u \<noteq> [] \<and> hd u \<in> {unit_of CHR ''x'', unit_of CHR ''X''}
            then radix_literal 16 (tl u)
          else if c = unit_of CHR ''0'' \<and> u \<noteq> [] \<and> hd u \<in> {unit_of CHR ''o'', unit_of CHR ''O''}
            then radix_literal 8 (tl u)
          else if c = unit_of CHR ''0'' \<and> u \<noteq> [] \<and> hd u \<in> {unit_of CHR ''b'', unit_of CHR ''B''}
            then radix_literal 2 (tl u)
          else unsigned_decimal t)"

text \<open>
  \<^verbatim>\<open>ToNumber\<close> on a JSON value.  An object is converted through
  \<^verbatim>\<open>valueOf\<close> and \<^verbatim>\<open>toString\<close>: a parsed object inherits both, and
  \<^verbatim>\<open>Object.prototype.toString\<close> yields \<^verbatim>\<open>[object Object]\<close>, which is not a number; an
  own property \<^verbatim>\<open>toString\<close> is never callable in parsed JSON, hides the inherited
  method and makes the conversion throw.  An array is converted through \<^verbatim>\<open>join\<close>: the
  empty array gives the empty string, a one-element array the text of its element
  (\<^verbatim>\<open>null\<close> prints as the empty string, a number prints as a literal that reads back as
  itself), and a longer array a text with a comma, which is not a number.
\<close>

fun throws_ToString :: "'a json \<Rightarrow> bool" where
  "throws_ToString (JObj kvs) = (str ''toString'' \<in> fst ` set kvs)"
| "throws_ToString (JArr xs) = (\<exists>x \<in> set xs. throws_ToString x)"
| "throws_ToString v = False"

fun number_of :: "'a json \<Rightarrow> jsnum" where
  "number_of JNull = Fin 0"
| "number_of (JBool b) = Fin (if b then 1 else 0)"
| "number_of (JNum q) = Fin q"
| "number_of (JStr s) = StringToNumber s"
| "number_of (JArr []) = Fin 0"
| "number_of (JArr [JNull]) = Fin 0"
| "number_of (JArr [JBool b]) = NaN"
| "number_of (JArr [x]) = number_of x"
| "number_of (JArr (x # y # zs)) = NaN"
| "number_of (JObj kvs) = NaN"
| "number_of (JRec r) = NaN"

definition ToNumber :: "'a json \<Rightarrow> thrown + jsnum" where
  "ToNumber v = (if throws_ToString v then Inl TypeError else Inr (number_of v))"

text \<open>\<^verbatim>\<open>n >= v\<close> for a page counter \<open>n\<close>; \<^verbatim>\<open>undefined\<close> and \<^verbatim>\<open>NaN\<close> compare false.\<close>

fun ge_jsnum :: "nat \<Rightarrow> jsnum \<Rightarrow> bool" where
  "ge_jsnum n NaN = False"
| "ge_jsnum n (Fin q) = (q \<le> of_nat n)"
| "ge_jsnum n PosInf = False"
| "ge_jsnum n NegInf = True"

fun js_ge :: "nat \<Rightarrow> 'a json option \<Rightarrow> thrown + bool" where
  "js_ge n None = Inr False"
| "js_ge n (Some v) = (case ToNumber v of Inl e \<Rightarrow> Inl e | Inr x \<Rightarrow> Inr (ge_jsnum n x))"

section \<open>The fetch primitive\<close>

text \<open>
  \<^verbatim>\<open>QueryParams\<close> is an object from parameter names to strings, numbers or
  \<^verbatim>\<open>undefined\<close>; its properties are kept in insertion order, as \<^verbatim>\<open>Object.entries\<close>
  lists them (the names used are \<^verbatim>\<open>format\<close>, \<^verbatim>\<open>per_page\<close> and \<^verbatim>\<open>page\<close>).  Object
  spread \<^verbatim>\<open>{...a, ...b}\<close> writes the properties of \<^verbatim>\<open>b\<close> over those of \<^verbatim>\<open>a\<close>.
\<close>

datatype qvalue = QStr jsstring | QNum rat | QUndefined

type_synonym QueryParams = "(jsstring \<times> qvalue) list"

definition spread :: "QueryParams \<Rightarrow> QueryParams \<Rightarrow> QueryParams" where
  "spread a b = foldl (\<lambda>obj (k, v). AList.update k v obj) a b"

text \<open>
  A request is the URL \<^verbatim>\<open>${API_BASE}/${endpoint}?${queryString}\<close>, kept as its endpoint
  and the entries appended to the query string (those whose value is not
  \<^verbatim>\<open>undefined\<close>).
\<close>

record Request =
  endpoint :: jsstring
  query :: QueryParams

text \<open>
  What \<^verbatim>\<open>axios.get\<close> does with a request: it throws (a timeout after 10 seconds, a
  response whose status \<^verbatim>\<open>validateStatus\<close> rejects, no response at all, a failure while
  setting the request up, or something that is no axios error), or it resolves with the
  parsed body \<^verbatim>\<open>response.data\<close>.  The upstream may answer the same request differently
  over time: \<open>api n req\<close> is the answer to \<open>req\<close> when \<open>n\<close> requests have been sent
  before it.
\<close>

datatype failure =
    Timeout
  | ErrorStatus nat
  | NetworkError
  | SetupError
  | NonAxiosError

datatype 'a http = Throws failure | Data "'a json"

type_synonym 'a api = "nat \<Rightarrow> Request \<Rightarrow> 'a http"

definition defaultParams :: "QueryParams \<Rightarrow> QueryParams" where
  "defaultParams params =
     spread [(str ''format'', QStr (str ''json'')), (str ''per_page'', QNum 50)] params"

definition request_of :: "jsstring \<Rightarrow> QueryParams \<Rightarrow> Request" where
  "request_of ep params =
     \<lparr>endpoint = ep, query = filter (\<lambda>(key, v). v \<noteq> QUndefined) (defaultParams params)\<rparr>"

text \<open>
  \<^verbatim>\<open>makeWorldBankRequest\<close> returns the body, or \<^verbatim>\<open>null\<close> for "no data".  The
  \<^verbatim>\<open>catch\<close> block only chooses which line to log, and returns \<^verbatim>\<open>null\<close> for every
  failure.  The second component is the list of the requests sent so far.
\<close>

definition makeWorldBankRequest ::
  "'a api \<Rightarrow> jsstring \<Rightarrow> QueryParams \<Rightarrow> Request list \<Rightarrow> 'a json \<times> Request list" where
  "makeWorldBankRequest api ep params sent =
     (let req = request_of ep params in
      (case api (length sent) req of
         Throws err \<Rightarrow> JNull
       | Data d \<Rightarrow>
           (case d of
              JArr xs \<Rightarrow>
                if length xs = 0 then JNull
                else
                  let firstItem = xs ! 0 in
                  if truthy firstItem \<and> truthy_opt (own_prop (str ''message'') firstItem) then JNull
                  else d
            | _ \<Rightarrow> d),
       sent @ [req]))"

section \<open>The aggregator\<close>

text \<open>
  \<^verbatim>\<open>allData.concat(pageData)\<close>: an array argument is spread, any other value is
  appended as one element.
\<close>

fun js_concat :: "'a json list \<Rightarrow> 'a json \<Rightarrow> 'a json list" where
  "js_concat acc (JArr xs) = acc @ xs"
| "js_concat acc v = acc @ [v]"

definition page_params :: "QueryParams \<Rightarrow> nat \<Rightarrow> nat \<Rightarrow> QueryParams" where
  "page_params params currentPage perPage =
     spread params [(str ''page'', QNum (of_nat currentPage)),
                    (str ''per_page'', QNum (of_nat perPage))]"

text \<open>\<^verbatim>\<open>currentPage >= paginationInfo.pages\<close>, which throws when the metadata is \<^verbatim>\<open>null\<close>.\<close>

definition pages_reached :: "nat \<Rightarrow> 'a json \<Rightarrow> thrown + bool" where
  "pages_reached currentPage paginationInfo =
     (case get_prop paginationInfo (str ''pages'') of
        Inl e \<Rightarrow> Inl e
      | Inr pages \<Rightarrow> js_ge currentPage pages)"

text \<open>
  The \<^verbatim>\<open>while\<close> loop of \<^verbatim>\<open>getCompleteList\<close>, with \<^verbatim>\<open>allData\<close> and
  \<^verbatim>\<open>currentPage\<close> as arguments.  An exception inside the loop is caught by the
  surrounding \<^verbatim>\<open>try\<close>, and \<^verbatim>\<open>allData\<close> is returned as it stands.  The pause of 100 ms
  between two pages is not modelled.
\<close>

function getCompleteList_loop ::
  "'a api \<Rightarrow> jsstring \<Rightarrow> QueryParams \<Rightarrow> nat \<Rightarrow> nat \<Rightarrow> 'a json list \<Rightarrow> nat \<Rightarrow> Request list
     \<Rightarrow> 'a json list \<times> Request list" where
  "getCompleteList_loop api ep params maxPages perPage allData currentPage sent =
     (if currentPage \<le> maxPages then
        (case makeWorldBankRequest api ep (page_params params currentPage perPage) sent of
           (response, sent') \<Rightarrow>
             (case response of
                JArr xs \<Rightarrow>
                  if length xs < 2 then (allData, sent')
                  else
                    (case pages_reached currentPage (xs ! 0) of
                       Inl e \<Rightarrow> (js_concat allData (xs ! 1), sent')
                     | Inr stop \<Rightarrow>
                         if stop then (js_concat allData (xs ! 1), sent')
                         else getCompleteList_loop api ep params maxPages perPage
                                (js_concat allData (xs ! 1)) (currentPage + 1) sent')
              | _ \<Rightarrow> (allData, sent')))
      else (allData, sent))"
  by pat_completeness auto
termination
  by (relation "measure (\<lambda>(api, ep, params, maxPages, perPage, allData, currentPage, sent).
                  Suc maxPages - currentPage)") auto

definition getCompleteList ::
  "'a api \<Rightarrow> jsstring \<Rightarrow> QueryParams \<Rightarrow> nat \<Rightarrow> nat \<Rightarrow> Request list \<Rightarrow> 'a json list \<times> Request list" where
  "getCompleteList api ep params maxPages perPage sent =
     getCompleteList_loop api ep params maxPages perPage [] 1 sent"

section \<open>The interfaces of \<^verbatim>\<open>types.ts\<close>\<close>

text \<open>
  Field names carry the name of their interface where two interfaces share a name
  (\<^verbatim>\<open>id\<close>, \<^verbatim>\<open>name\<close>, \<^verbatim>\<open>value\<close>, \<^verbatim>\<open>unit\<close>).  \<^verbatim>\<open>DataPoint.value\<close> is declared
  \<^verbatim>\<open>number\<close>, and the code tests it against \<^verbatim>\<open>null\<close>: it is an optional number.
\<close>

record Region =
  region_id :: jsstring
  region_iso2code :: jsstring
  region_value :: jsstring

record Country =
  country_id :: jsstring
  iso2Code :: jsstring
  country_name :: jsstring
  region :: Region
  adminregion :: Region
  incomeLevel :: Region
  lendingType :: Region
  capitalCity :: jsstring
  longitude :: jsstring
  latitude :: jsstring

record Source =
  source_id :: jsstring
  source_value :: jsstring

record Topic =
  topic_id :: jsstring
  topic_value :: jsstring

record Indicator =
  indicator_id :: jsstring
  indicator_name :: jsstring
  indicator_unit :: jsstring
  source :: Source
  sourceNote :: jsstring
  sourceOrganization :: jsstring
  topics :: "Topic list"

record IdValue =
  iv_id :: jsstring
  iv_value :: jsstring

record DataPoint =
  point_indicator :: IdValue
  point_country :: IdValue
  countryiso3code :: jsstring
  date :: jsstring
  point_value :: "rat option"
  point_unit :: jsstring
  obs_status :: jsstring
  decimal :: rat

text \<open>
  The type annotations \<^verbatim>\<open>getCompleteList<Country>\<close>, \<^verbatim>\<open>(country: Country) => ...\<close>,
  \<^verbatim>\<open>(point: DataPoint) => ...\<close> are unchecked at run time.  Where the code starts to
  read rows through their interface, the model reads a list of \<open>JRec\<close> rows; for a list
  with any other element the result is \<open>None\<close>: the typed code is not modelled on values
  that are not of its declared type.
\<close>

fun as_row :: "'a json \<Rightarrow> 'a option" where
  "as_row (JRec r) = Some r"
| "as_row v = None"

definition as_rows :: "'a json list \<Rightarrow> 'a list option" where
  "as_rows xs = those (map as_row xs)"

section \<open>The reference-data cache\<close>

record State =
  COUNTRIES_CACHE :: "Country list"
  INDICATORS_CACHE :: "Indicator list"
  requests :: "Request list"

definition initial_state :: State where
  "initial_state = \<lparr>COUNTRIES_CACHE = [], INDICATORS_CACHE = [], requests = []\<rparr>"

definition getCountries :: "Country api \<Rightarrow> State \<Rightarrow> Country list option \<times> State" where
  "getCountries api s =
     (if length (COUNTRIES_CACHE s) > 0 then (Some (COUNTRIES_CACHE s), s)
      else
        (case getCompleteList api (str ''countries'') [] 5 100 (requests s) of
           (allCountries, sent') \<Rightarrow>
             if length allCountries > 0 then
               (case as_rows allCountries of
                  None \<Rightarrow> (None, s\<lparr>requests := sent'\<rparr>)
                | Some rows \<Rightarrow>
                    let cache = filter (\<lambda>country.
                                  region_value (region country) \<noteq> str ''Aggregates''
                                  \<and> length (country_id country) = 3) rows
                    in (Some cache, s\<lparr>COUNTRIES_CACHE := cache, requests := sent'\<rparr>))
             else (Some [], s\<lparr>requests := sent'\<rparr>)))"

definition getIndicators :: "Indicator api \<Rightarrow> State \<Rightarrow> Indicator list option \<times> State" where
  "getIndicators api s =
     (if length (INDICATORS_CACHE s) > 0 then (Some (INDICATORS_CACHE s), s)
      else
        (case getCompleteList api (str ''indicators'') [] 10 50 (requests s) of
           (allIndicators, sent') \<Rightarrow>
             if length allIndicators > 0 then
               (case as_rows allIndicators of
                  None \<Rightarrow> (None, s\<lparr>requests := sent'\<rparr>)
                | Some rows \<Rightarrow> (Some rows, s\<lparr>INDICATORS_CACHE := rows, requests := sent'\<rparr>))
             else (Some [], s\<lparr>requests := sent'\<rparr>)))"

section \<open>The indicator data query\<close>

text \<open>
  \<^verbatim>\<open>response[1]\<close> on a truthy body: the second element of an array, the property
  \<^verbatim>\<open>"1"\<close> of an object, the second code unit of a string, and \<^verbatim>\<open>undefined\<close>
  otherwise.
\<close>

fun elem1 :: "'a json \<Rightarrow> 'a json option" where
  "elem1 (JArr xs) = (if 1 < length xs then Some (xs ! 1) else None)"
| "elem1 (JObj kvs) = map_of (rev kvs) (str ''1'')"
| "elem1 (JStr s) = (if 1 < length s then Some (JStr [s ! 1]) else None)"
| "elem1 v = None"

definition getCountryData ::
  "DataPoint api \<Rightarrow> jsstring \<Rightarrow> jsstring \<Rightarrow> rat \<Rightarrow> Request list
     \<Rightarrow> DataPoint list option \<times> Request list" where
  "getCountryData api countryCode indicatorId years sent =
     (case makeWorldBankRequest api
             (str ''country/'' @ countryCode @ str ''/indicator/'' @ indicatorId)
             [(str ''per_page'', QNum years)] sent of
        (response, sent') \<Rightarrow>
          if truthy response \<and> isArray (elem1 response) then
            (case elem1 response of
               Some (JArr points) \<Rightarrow>
                 (case as_rows points of
                    None \<Rightarrow> (None, sent')
                  | Some rows \<Rightarrow> (Some (filter (\<lambda>point. point_value point \<noteq> None) rows), sent'))
             | _ \<Rightarrow> (Some [], sent'))
          else (Some [], sent'))"

section \<open>Formatting\<close>

definition formatCountryInfo :: "Country \<Rightarrow> jsstring" where
  "formatCountryInfo country =
     js_trim ([newline] @ str ''  Country: '' @ country_name country @ str '' (''
        @ iso2Code country @ str '')''
        @ [newline] @ str ''  Region: '' @ region_value (region country)
        @ [newline] @ str ''  Income Level: '' @ region_value (incomeLevel country)
        @ [newline] @ str ''  Capital: '' @ capitalCity country
        @ [newline] @ str ''  Coordinates: '' @ latitude country @ str '', '' @ longitude country
        @ [newline] @ str ''  '')"

text \<open>
  The line ends written by \<^verbatim>\<open>formatIndicatorData\<close> are two backslashes and the letter
  n, as the source spells them.
\<close>

definition formatPoint :: "Runtime \<Rightarrow> DataPoint \<Rightarrow> jsstring" where
  "formatPoint rt point =
     date point @ str '' | ''
     @ (case point_value point of
          None \<Rightarrow> str ''N/A''
        | Some v \<Rightarrow> if toLocaleString rt v = [] then str ''N/A'' else toLocaleString rt v)
     @ str '' | '' @ (if point_unit point = [] then str ''N/A'' else point_unit point)
     @ [backslash, backslash, unit_of CHR ''n'']"

definition formatIndicatorData :: "Runtime \<Rightarrow> DataPoint list \<Rightarrow> jsstring \<Rightarrow> jsstring" where
  "formatIndicatorData rt data indicatorName =
     (if length data = 0 then str ''No data found for '' @ indicatorName
      else indicatorName @ str '' data:'' @ [backslash, backslash, unit_of CHR ''n'']
           @ str ''Year | Value | Unit'' @ [backslash, backslash, unit_of CHR ''n'']
           @ str ''--- | --- | ---'' @ [backslash, backslash, unit_of CHR ''n'']
           @ concat (map (formatPoint rt) data))"

section \<open>The indicator table\<close>

definition COMMON_INDICATORS :: "(jsstring \<times> jsstring) list" where
  "COMMON_INDICATORS =
     map (\<lambda>(key, ident). (str key, str ident))
     [(''GDP'', ''NY.GDP.MKTP.CD''),
      (''GDP_GROWTH'', ''NY.GDP.MKTP.KD.ZG''),
      (''GDP_PER_CAPITA'', ''NY.GDP.PCAP.CD''),
      (''GNI'', ''NY.GNP.MKTP.CD''),
      (''GNI_PER_CAPITA'', ''NY.GNP.PCAP.CD''),
      (''EXPORTS_GDP'', ''NE.EXP.GNFS.ZS''),
      (''FDI_NET'', ''BN.KLT.DINV.CD''),
      (''INFLATION'', ''FP.CPI.TOTL.ZG''),
      (''UNEMPLOYMENT'', ''SL.UEM.TOTL.ZS''),
      (''POPULATION'', ''SP.POP.TOTL''),
      (''LIFE_EXPECTANCY'', ''SP.DYN.LE00.IN''),
      (''BIRTH_RATE'', ''SP.DYN.CBRT.IN''),
      (''DEATH_RATE'', ''SP.DYN.CDRT.IN''),
      (''INTERNET_USERS'', ''IT.NET.USER.ZS''),
      (''LITERACY_RATE'', ''SE.ADT.LITR.ZS''),
      (''SCHOOL_ENROLLMENT'', ''SE.PRM.ENRR''),
      (''SCHOOL_COMPLETION'', ''SE.PRM.CMPT.ZS''),
      (''TEACHERS_PRIMARY'', ''SE.PRM.TCHR''),
      (''EDUCATION_EXPENDITURE'', ''SE.XPD.TOTL.GD.ZS''),
      (''HEALTH_EXPENDITURE'', ''SH.XPD.CHEX.GD.ZS''),
      (''PHYSICIANS'', ''SH.MED.PHYS.ZS''),
      (''HOSPITAL_BEDS'', ''SH.MED.BEDS.ZS''),
      (''IMMUNIZATION'', ''SH.IMM.MEAS''),
      (''HIV_PREVALENCE'', ''SH.DYN.AIDS.ZS''),
      (''MALNUTRITION'', ''SH.STA.MALN.ZS''),
      (''TUBERCULOSIS'', ''SH.TBS.INCD'')]"

text \<open>
  \<^verbatim>\<open>COMMON_INDICATORS[indicatorKey]\<close> is a property read on an object literal: it
  finds the own property of that name, else the property that every object inherits
  from \<^verbatim>\<open>Object.prototype\<close>, else \<^verbatim>\<open>undefined\<close>.  The inherited properties are
  functions, and the accessor \<^verbatim>\<open>__proto__\<close>, which yields the prototype object; all
  are truthy.
\<close>

definition Object_prototype :: "jsstring list" where
  "Object_prototype =
     map str
     [''constructor'', ''__defineGetter__'', ''__defineSetter__'', ''hasOwnProperty'',
      ''__lookupGetter__'', ''__lookupSetter__'', ''isPrototypeOf'', ''propertyIsEnumerable'',
      ''toString'', ''valueOf'', ''__proto__'', ''toLocaleString'']"

datatype property = Undefined | Text jsstring | Inherited jsstring

definition COMMON_INDICATORS_at :: "jsstring \<Rightarrow> property" where
  "COMMON_INDICATORS_at indicatorKey =
     (case map_of COMMON_INDICATORS indicatorKey of
        Some indicatorId \<Rightarrow> Text indicatorId
      | None \<Rightarrow> if indicatorKey \<in> set Object_prototype then Inherited indicatorKey else Undefined)"

fun falsy_property :: "property \<Rightarrow> bool" where
  "falsy_property Undefined = True"
| "falsy_property (Text t) = (t = [])"
| "falsy_property (Inherited k) = False"

text \<open>The text of a property value inside a template string.\<close>

fun String_of :: "property \<Rightarrow> jsstring" where
  "String_of Undefined = str ''undefined''"
| "String_of (Text t) = t"
| "String_of (Inherited k) =
     (if k = str ''__proto__'' then str ''[object Object]''
      else str ''function '' @ (if k = str ''constructor'' then str ''Object'' else k)
           @ str ''() { [native code] }'')"

text \<open>
  \<^verbatim>\<open>Object.entries(COMMON_INDICATORS).find(([key, id]) => id === indicatorId)?.[0] || indicatorKey\<close>
\<close>

definition indicatorName_of :: "property \<Rightarrow> jsstring \<Rightarrow> jsstring" where
  "indicatorName_of indicatorId indicatorKey =
     (case find (\<lambda>(key, ident). Text ident = indicatorId) COMMON_INDICATORS of
        Some (key, ident) \<Rightarrow> if key = [] then indicatorKey else key
      | None \<Rightarrow> indicatorKey)"

section \<open>The tool handlers\<close>

text \<open>
  A handler returns one text block.  The upstream is seen through one typed view for
  each endpoint family.
\<close>

record WorldBank =
  countries_api :: "Country api"
  indicators_api :: "Indicator api"
  data_api :: "DataPoint api"

text \<open>
  The lookup by country code, written out twice in the source (in
  \<^verbatim>\<open>handleIndicatorData\<close> and in \<^verbatim>\<open>get-country-info\<close>):
  \<^verbatim>\<open>countries.find(c => c.iso2Code === countryCode.toUpperCase() || c.id === countryCode.toUpperCase())\<close>
\<close>

definition find_country :: "Runtime \<Rightarrow> Country list \<Rightarrow> jsstring \<Rightarrow> Country option" where
  "find_country rt countries countryCode =
     find (\<lambda>c. iso2Code c = toUpperCase rt countryCode \<or> country_id c = toUpperCase rt countryCode)
       countries"

definition handleIndicatorData ::
  "WorldBank \<Rightarrow> Runtime \<Rightarrow> jsstring \<Rightarrow> jsstring \<Rightarrow> rat \<Rightarrow> State \<Rightarrow> jsstring option \<times> State" where
  "handleIndicatorData wb rt countryCode indicatorKey years s =
     (let indicatorId = COMMON_INDICATORS_at indicatorKey in
      if falsy_property indicatorId then (Some (str ''Error: Unsupported indicator type''), s)
      else
        (case getCountries (countries_api wb) s of
           (None, s1) \<Rightarrow> (None, s1)
         | (Some countries, s1) \<Rightarrow>
             (case find_country rt countries countryCode of
                None \<Rightarrow> (Some (str ''Error: Country not found''), s1)
              | Some country \<Rightarrow>
                  (case getCountryData (data_api wb) (country_id country) (String_of indicatorId)
                          years (requests s1) of
                     (None, sent') \<Rightarrow> (None, s1\<lparr>requests := sent'\<rparr>)
                   | (Some data, sent') \<Rightarrow>
                       (Some (formatIndicatorData rt data
                                (country_name country @ str '' - ''
                                 @ indicatorName_of indicatorId indicatorKey)),
                        s1\<lparr>requests := sent'\<rparr>)))))"

text \<open>
  The four tools \<^verbatim>\<open>get-economic-data\<close>, \<^verbatim>\<open>get-social-data\<close>,
  \<^verbatim>\<open>get-education-data\<close> and \<^verbatim>\<open>get-health-data\<close> share one handler; the list
  \<^verbatim>\<open>indicators\<close> of a tool configuration is not consulted.  \<^verbatim>\<open>years\<close> is optional
  and defaults to 10.
\<close>

datatype category = Economic | Social | Education | Health

definition indicator_tool ::
  "category \<Rightarrow> WorldBank \<Rightarrow> Runtime \<Rightarrow> jsstring \<Rightarrow> jsstring \<Rightarrow> rat option \<Rightarrow> State
     \<Rightarrow> jsstring option \<times> State" where
  "indicator_tool config wb rt countryCode indicator years s =
     handleIndicatorData wb rt countryCode indicator
       (case years of None \<Rightarrow> 10 | Some y \<Rightarrow> y) s"

definition filter_countries ::
  "Country list \<Rightarrow> jsstring option \<Rightarrow> jsstring option \<Rightarrow> Country list" where
  "filter_countries countries region_arg incomeLevel_arg =
     (let filteredCountries = countries;
          filteredCountries =
            (case region_arg of
               Some r \<Rightarrow>
                 if r \<noteq> [] \<and> js_trim r \<noteq> []
                 then filter (\<lambda>c. str_includes (region_value (region c)) r) filteredCountries
                 else filteredCountries
             | None \<Rightarrow> filteredCountries);
          filteredCountries =
            (case incomeLevel_arg of
               Some i \<Rightarrow>
                 if i \<noteq> [] \<and> js_trim i \<noteq> []
                 then filter (\<lambda>c. str_includes (region_value (incomeLevel c)) i) filteredCountries
                 else filteredCountries
             | None \<Rightarrow> filteredCountries)
      in filteredCountries)"

definition country_line :: "Country \<Rightarrow> jsstring" where
  "country_line country =
     country_name country @ str '' ('' @ iso2Code country @ str '') - ''
     @ region_value (region country) @ str '' - '' @ region_value (incomeLevel country)"

definition get_countries_tool ::
  "WorldBank \<Rightarrow> jsstring option \<Rightarrow> jsstring option \<Rightarrow> State \<Rightarrow> jsstring option \<times> State" where
  "get_countries_tool wb region_arg incomeLevel_arg s =
     (case getCountries (countries_api wb) s of
        (None, s1) \<Rightarrow> (None, s1)
      | (Some countries, s1) \<Rightarrow>
          let result = join [backslash, unit_of CHR ''n'']
                         (map country_line (filter_countries countries region_arg incomeLevel_arg))
          in (Some (if result = [] then str ''No countries found matching the criteria'' else result),
              s1))"

definition get_country_info_tool ::
  "WorldBank \<Rightarrow> Runtime \<Rightarrow> jsstring \<Rightarrow> State \<Rightarrow> jsstring option \<times> State" where
  "get_country_info_tool wb rt countryCode s =
     (case getCountries (countries_api wb) s of
        (None, s1) \<Rightarrow> (None, s1)
      | (Some countries, s1) \<Rightarrow>
          (case find_country rt countries countryCode of
             None \<Rightarrow> (Some (str ''Error: Country not found''), s1)
           | Some country \<Rightarrow> (Some (formatCountryInfo country), s1)))"

definition search_indicators :: "Runtime \<Rightarrow> Indicator list \<Rightarrow> jsstring \<Rightarrow> Indicator list" where
  "search_indicators rt indicators keyword =
     take 20 (filter (\<lambda>indicator.
                str_includes (toLowerCase rt (indicator_name indicator)) (toLowerCase rt keyword)
                \<or> str_includes (toLowerCase rt (indicator_id indicator)) (toLowerCase rt keyword))
              indicators)"

definition indicator_line :: "Indicator \<Rightarrow> jsstring" where
  "indicator_line indicator =
     indicator_id indicator @ str '': '' @ indicator_name indicator @ str '' (''
     @ (if indicator_unit indicator = [] then str ''N/A'' else indicator_unit indicator)
     @ str '')''"

definition search_indicators_tool ::
  "WorldBank \<Rightarrow> Runtime \<Rightarrow> jsstring \<Rightarrow> State \<Rightarrow> jsstring option \<times> State" where
  "search_indicators_tool wb rt keyword s =
     (case getIndicators (indicators_api wb) s of
        (None, s1) \<Rightarrow> (None, s1)
      | (Some indicators, s1) \<Rightarrow>
          let filteredIndicators = search_indicators rt indicators keyword in
          if length filteredIndicators = 0 then (Some (str ''No related indicators found''), s1)
          else (Some (join [backslash, unit_of CHR ''n''] (map indicator_line filteredIndicators)),
                s1))"

text \<open>The start of the server: both caches are loaded before the first tool call.\<close>

definition preload :: "WorldBank \<Rightarrow> State \<Rightarrow> State" where
  "preload wb s = snd (getIndicators (indicators_api wb) (snd (getCountries (countries_api wb) s)))"

section \<open>Vocabulary of the properties\<close>

text \<open>The request for one page, as the loop of \<^verbatim>\<open>getCompleteList\<close> builds it.\<close>

definition page_request :: "jsstring \<Rightarrow> QueryParams \<Rightarrow> nat \<Rightarrow> nat \<Rightarrow> Request" where
  "page_request ep params currentPage perPage = request_of ep (page_params params currentPage perPage)"

text \<open>
  A well-formed page of a collection of \<open>N\<close> pages: a two-element (or longer) array
  whose metadata declares \<open>pages = N\<close> and carries no truthy \<^verbatim>\<open>message\<close>, and whose
  payload is the array \<open>rows\<close>.
\<close>

fun is_envelope :: "nat \<Rightarrow> 'a json list \<Rightarrow> 'a json \<Rightarrow> bool" where
  "is_envelope N rows (JArr (meta # JArr xs # rest)) =
     (xs = rows \<and> own_prop (str ''pages'') meta = Some (JNum (of_nat N))
      \<and> \<not> truthy_opt (own_prop (str ''message'') meta))"
| "is_envelope N rows v = False"

definition serves_page :: "'a api \<Rightarrow> nat \<Rightarrow> Request \<Rightarrow> nat \<Rightarrow> 'a json list \<Rightarrow> bool" where
  "serves_page api n req N rows =
     (case api n req of Data body \<Rightarrow> is_envelope N rows body | Throws err \<Rightarrow> False)"

text \<open>
  The bodies that \<^verbatim>\<open>makeWorldBankRequest\<close> turns into \<^verbatim>\<open>null\<close>: the empty array,
  and an array whose first element is truthy and has a truthy \<^verbatim>\<open>message\<close>.
\<close>

fun no_data_body :: "'a json \<Rightarrow> bool" where
  "no_data_body (JArr []) = True"
| "no_data_body (JArr (firstItem # rest)) =
     (truthy firstItem \<and> truthy_opt (own_prop (str ''message'') firstItem))"
| "no_data_body v = False"

text \<open>The one request of \<^verbatim>\<open>getCountryData\<close>.\<close>

definition data_request :: "jsstring \<Rightarrow> jsstring \<Rightarrow> rat \<Rightarrow> Request" where
  "data_request countryCode indicatorId years =
     request_of (str ''country/'' @ countryCode @ str ''/indicator/'' @ indicatorId)
       [(str ''per_page'', QNum years)]"

text \<open>
  A "real" country: its region is not the aggregate bucket and its identifier has
  three code units.
\<close>

definition real_country :: "Country \<Rightarrow> bool" where
  "real_country c = (region_value (region c) \<noteq> str ''Aggregates'' \<and> length (country_id c) = 3)"

definition cache_ok :: "State \<Rightarrow> bool" where
  "cache_ok s = list_all real_country (COUNTRIES_CACHE s)"

text \<open>
  The states the server can be in: the initial state, and every state that the start
  of the server or a tool call leaves behind, whatever the upstream answers, whatever
  the arguments are and whatever the case mappings and the locale of the host are.
\<close>

inductive reachable :: "State \<Rightarrow> bool" where
  start: "reachable initial_state"
| loaded: "reachable s \<Longrightarrow> reachable (preload wb s)"
| listed: "reachable s \<Longrightarrow> reachable (snd (get_countries_tool wb region_arg incomeLevel_arg s))"
| described: "reachable s \<Longrightarrow> reachable (snd (get_country_info_tool wb rt countryCode s))"
| searched: "reachable s \<Longrightarrow> reachable (snd (search_indicators_tool wb rt keyword s))"
| queried: "reachable s \<Longrightarrow>
     reachable (snd (indicator_tool config wb rt countryCode indicator years s))"

text \<open>
  Two codes are equal up to letter case when their upper-case forms coincide.  A record
  matches a user-supplied code when one of its two codes is the upper-case form of the
  user's code; the source upper-cases the user's code only, so the lookup depends on
  the record's codes being stored in upper case.
\<close>

definition equal_ignoring_case :: "Runtime \<Rightarrow> jsstring \<Rightarrow> jsstring \<Rightarrow> bool" where
  "equal_ignoring_case rt a b = (toUpperCase rt a = toUpperCase rt b)"

definition matches_code :: "Runtime \<Rightarrow> jsstring \<Rightarrow> Country \<Rightarrow> bool" where
  "matches_code rt code c =
     (iso2Code c = toUpperCase rt code \<or> country_id c = toUpperCase rt code)"

definition stored_upper_case :: "Runtime \<Rightarrow> Country \<Rightarrow> bool" where
  "stored_upper_case rt c =
     (toUpperCase rt (iso2Code c) = iso2Code c \<and> toUpperCase rt (country_id c) = country_id c)"

text \<open>
  A text contains a keyword case-insensitively when its lower-case form contains the
  lower-case form of the keyword.
\<close>

definition contains_ignoring_case :: "Runtime \<Rightarrow> jsstring \<Rightarrow> jsstring \<Rightarrow> bool" where
  "contains_ignoring_case rt txt keyword = sublist (toLowerCase rt keyword) (toLowerCase rt txt)"

definition matches_keyword :: "Runtime \<Rightarrow> jsstring \<Rightarrow> Indicator \<Rightarrow> bool" where
  "matches_keyword rt keyword indicator =
     (contains_ignoring_case rt (indicator_name indicator) keyword
      \<or> contains_ignoring_case rt (indicator_id indicator) keyword)"

text \<open>
  A filter argument of \<^verbatim>\<open>get-countries\<close> lets a value pass when the argument is
  absent, empty or white space only, or when it occurs in the value as a substring.
\<close>

definition passes :: "jsstring option \<Rightarrow> jsstring \<Rightarrow> bool" where
  "passes arg txt = (case arg of None \<Rightarrow> True | Some t \<Rightarrow> list_all is_ws t \<or> sublist t txt)"

section \<open>Example inputs\<close>

definition plain_region :: "string \<Rightarrow> Region" where
  "plain_region v = \<lparr>region_id = [], region_iso2code = [], region_value = str v\<rparr>"

definition a_country :: "string \<Rightarrow> string \<Rightarrow> string \<Rightarrow> string \<Rightarrow> Country" where
  "a_country ident iso2 nm reg =
     \<lparr>country_id = str ident, iso2Code = str iso2, country_name = str nm,
      region = plain_region reg, adminregion = plain_region '''',
      incomeLevel = plain_region ''High income'', lendingType = plain_region '''',
      capitalCity = [], longitude = [], latitude = []\<rparr>"

definition usa :: Country where
  "usa = a_country ''USA'' ''US'' ''United States'' ''North America''"

definition chn :: Country where
  "chn = a_country ''CHN'' ''CN'' ''China'' ''East Asia & Pacific''"

definition world :: Country where
  "world = a_country ''WLD'' ''1W'' ''World'' ''Aggregates''"

text \<open>A second record with the codes of China, and a record whose codes are in lower case.\<close>

definition chn_again :: Country where
  "chn_again = a_country ''CHN'' ''CN'' ''China, again'' ''East Asia & Pacific''"

definition lower_case_usa :: Country where
  "lower_case_usa = a_country ''usa'' ''us'' ''United States'' ''North America''"

definition metadata :: "nat \<Rightarrow> 'a json" where
  "metadata N =
     JObj [(str ''page'', JNum 1), (str ''pages'', JNum (of_nat N)),
           (str ''per_page'', JStr (str ''100'')), (str ''total'', JNum 3)]"

definition page_rows :: "nat \<Rightarrow> Country json list" where
  "page_rows p = (if p = 1 then [JRec usa, JRec world] else [JRec chn])"

definition requested_page :: "Request \<Rightarrow> nat" where
  "requested_page req =
     (case map_of (query req) (str ''page'') of Some (QNum q) \<Rightarrow> nat \<lfloor>q\<rfloor> | _ \<Rightarrow> 0)"

text \<open>An upstream with two pages of countries, and one that declares no page at all.\<close>

definition two_pages_api :: "Country api" where
  "two_pages_api n req = Data (JArr [metadata 2, JArr (page_rows (requested_page req))])"

definition zero_pages_api :: "Country api" where
  "zero_pages_api n req = Data (JArr [metadata 0, JArr []])"

text \<open>
  The error payload of the upstream for an invalid parameter, and a body whose first
  element has an empty \<^verbatim>\<open>message\<close>.
\<close>

definition error_body :: "'a json" where
  "error_body =
     JArr [JObj [(str ''message'',
       JArr [JObj [(str ''id'', JStr (str ''120'')), (str ''key'', JStr (str ''Invalid value'')),
                   (str ''value'', JStr (str ''The provided parameter value is not valid''))]])]]"

definition error_api :: "'a api" where
  "error_api n req = Data error_body"

definition blank_message_body :: "'a json" where
  "blank_message_body = JArr [JObj [(str ''message'', JStr [])]]"

definition blank_message_api :: "'a api" where
  "blank_message_api n req = Data blank_message_body"

definition a_point :: "string \<Rightarrow> rat option \<Rightarrow> DataPoint" where
  "a_point year v =
     \<lparr>point_indicator = \<lparr>iv_id = str ''NY.GDP.MKTP.CD'', iv_value = str ''GDP (current US$)''\<rparr>,
      point_country = \<lparr>iv_id = str ''US'', iv_value = str ''United States''\<rparr>,
      countryiso3code = str ''USA'', date = str year, point_value = v, point_unit = [],
      obs_status = [], decimal = 0\<rparr>"

text \<open>Four observations, most recent first, two of them without a value.\<close>

definition points_api :: "DataPoint api" where
  "points_api n req =
     Data (JArr [metadata 1,
                 JArr [JRec (a_point ''2023'' None), JRec (a_point ''2022'' (Some 25)),
                       JRec (a_point ''2021'' None), JRec (a_point ''2020'' (Some 21))]])"

text \<open>
  An upstream that never answers in time, and a catalog of 25 indicators that all
  mention schools, served on one page.
\<close>

definition down_api :: "'a api" where
  "down_api n req = Throws Timeout"

definition school :: "nat \<Rightarrow> Indicator" where
  "school n =
     \<lparr>indicator_id = str ''SE.PRM.ENRR.'' @ replicate n (unit_of CHR ''X''),
      indicator_name = str ''School enrollment, primary (% gross)'',
      indicator_unit = [],
      source = \<lparr>source_id = str ''2'', source_value = str ''World Development Indicators''\<rparr>,
      sourceNote = [], sourceOrganization = [], topics = []\<rparr>"

definition catalog :: "Indicator list" where
  "catalog = map school [0..<25]"

definition catalog_api :: "Indicator api" where
  "catalog_api n req = Data (JArr [metadata 1, JArr (map JRec catalog)])"

text \<open>
  Two World Banks: both serve two pages of countries and the catalog; the data endpoint
  of the first serves the four observations, that of the second the error payload.
\<close>

definition two_pages :: WorldBank where
  "two_pages =
     \<lparr>countries_api = two_pages_api, indicators_api = catalog_api, data_api = points_api\<rparr>"

definition no_data_world :: WorldBank where
  "no_data_world =
     \<lparr>countries_api = two_pages_api, indicators_api = catalog_api, data_api = error_api\<rparr>"

text \<open>
  A runtime for the examples.  Its case mappings change the letters \<^verbatim>\<open>a\<close> to \<^verbatim>\<open>z\<close>
  and \<^verbatim>\<open>A\<close> to \<^verbatim>\<open>Z\<close> only, which is what JavaScript does on the ASCII texts of
  the examples.
\<close>

definition ascii_upper :: "16 word \<Rightarrow> 16 word" where
  "ascii_upper c = (if 0x61 \<le> c \<and> c \<le> 0x7A then c - 0x20 else c)"

definition ascii_lower :: "16 word \<Rightarrow> 16 word" where
  "ascii_lower c = (if 0x41 \<le> c \<and> c \<le> 0x5A then c + 0x20 else c)"

definition some_locale :: "rat \<Rightarrow> jsstring" where
  "some_locale q = (if q = 25 then str ''25'' else str ''21'')"

definition ascii_runtime :: Runtime where
  "ascii_runtime =
     \<lparr>toUpperCase = map ascii_upper, toLowerCase = map ascii_lower, toLocaleString = some_locale\<rparr>"

section \<open>Properties of strings\<close>

lemma unit_of_inject [simp]: "unit_of a = unit_of b \<longleftrightarrow> a = b"
proof
  assume "unit_of a = unit_of b"
  then have "unat (of_nat (of_char a) :: 16 word) = unat (of_nat (of_char b) :: 16 word)"
    by (simp add: unit_of_def)
  moreover have "(of_char c :: nat) < 2 ^ 16" for c
    by (rule less_trans[OF nat_of_char_less_256]) simp
  ultimately have "(of_char a :: nat) = of_char b"
    by (simp add: unat_of_nat take_bit_nat_eq_self)
  then show "a = b" by (simp add: inj_of_char[THEN injD])
qed simp

lemma inj_unit_of: "inj unit_of"
  by (rule injI) simp

lemma str_inject [simp]: "str a = str b \<longleftrightarrow> a = b"
  by (simp add: str_def inj_map_eq_map[OF inj_unit_of])

lemma length_str [simp]: "length (str s) = length s"
  by (simp add: str_def)

lemma str_Nil [simp]: "str [] = []"
  by (simp add: str_def)

lemma str_eq_Nil [simp]: "str s = [] \<longleftrightarrow> s = []"
  by (simp add: str_def)

lemma str_append [simp]: "str a @ str b = str (a @ b)"
  by (simp add: str_def)

lemma str_append_more [simp]: "str a @ str b @ t = str (a @ b) @ t"
  by (simp add: str_def)

section \<open>Properties of the aggregator\<close>

lemma makeWorldBankRequest_sent:
  "snd (makeWorldBankRequest api ep params sent) = sent @ [request_of ep params]"
  by (simp add: makeWorldBankRequest_def Let_def)

lemma is_envelope_cases:
  assumes "is_envelope N rows body"
  obtains meta rest where "body = JArr (meta # JArr rows # rest)"
    "own_prop (str ''pages'') meta = Some (JNum (of_nat N))" "\<not> truthy_opt (own_prop (str ''message'') meta)"
  using assms by (induction N rows body rule: is_envelope.induct) auto

lemma own_prop_Some_not_null: "own_prop k v = Some x \<Longrightarrow> v \<noteq> JNull"
  by (cases v) auto

lemma pages_reached_declared:
  assumes "own_prop (str ''pages'') meta = Some (JNum (of_nat N))"
  shows "pages_reached c meta = Inr (N \<le> c)"
proof -
  from assms have "meta \<noteq> JNull" by (rule own_prop_Some_not_null)
  then have "get_prop meta (str ''pages'') = Inr (Some (JNum (of_nat N)))"
    using assms by (cases meta) auto
  then show ?thesis
    by (simp add: pages_reached_def ToNumber_def)
qed

lemma request_envelope:
  assumes "serves_page api (length sent) (request_of ep params) N rows"
  obtains meta rest where
    "makeWorldBankRequest api ep params sent =
       (JArr (meta # JArr rows # rest), sent @ [request_of ep params])"
    "own_prop (str ''pages'') meta = Some (JNum (of_nat N))"
proof -
  from assms obtain body where b: "api (length sent) (request_of ep params) = Data body"
    and e: "is_envelope N rows body"
    by (auto simp: serves_page_def split: http.splits)
  from e obtain meta rest where body: "body = JArr (meta # JArr rows # rest)"
    and p: "own_prop (str ''pages'') meta = Some (JNum (of_nat N))"
    and m: "\<not> truthy_opt (own_prop (str ''message'') meta)"
    by (rule is_envelope_cases)
  have "makeWorldBankRequest api ep params sent =
          (JArr (meta # JArr rows # rest), sent @ [request_of ep params])"
    using b body m by (simp add: makeWorldBankRequest_def Let_def)
  from this p show ?thesis by (rule that)
qed

text \<open>
  The loop, started at page \<open>c\<close> on an upstream that serves the pages of an \<open>N\<close>-page
  collection: it fetches the pages \<open>c, \<dots>, min (max N 1) maxPages\<close> and appends their
  payloads in that order.
\<close>

lemma loop_pages:
  assumes "\<forall>p \<in> {1..min (max N 1) maxPages}.
             serves_page api (length sent0 + p - 1) (page_request ep params p perPage) N (rows p)"
    and "1 \<le> c" and "c \<le> max N 1" and "length sent = length sent0 + c - 1"
  shows "getCompleteList_loop api ep params maxPages perPage acc c sent =
           (acc @ concat (map rows [c..<Suc (min (max N 1) maxPages)]),
            sent @ map (\<lambda>p. page_request ep params p perPage) [c..<Suc (min (max N 1) maxPages)])"
  using assms
proof (induction api ep params maxPages perPage acc c sent rule: getCompleteList_loop.induct)
  case (1 api ep params maxPages perPage allData currentPage sent)
  let ?k = "min (max N 1) maxPages"
  show ?case
  proof (cases "currentPage \<le> maxPages")
    case False
    then have "[currentPage..<Suc ?k] = []" by simp
    with False show ?thesis by (subst getCompleteList_loop.simps) simp
  next
    case True
    note serves = "1.prems"(1) and lo = "1.prems"(2) and hi = "1.prems"(3) and len = "1.prems"(4)
    from True lo hi have in_range: "currentPage \<in> {1..?k}" by simp
    then have "serves_page api (length sent0 + currentPage - 1)
                 (page_request ep params currentPage perPage) N (rows currentPage)"
      using serves by blast
    then have "serves_page api (length sent)
                 (request_of ep (page_params params currentPage perPage)) N (rows currentPage)"
      using len by (simp add: page_request_def)
    then obtain meta rest where
      req: "makeWorldBankRequest api ep (page_params params currentPage perPage) sent =
              (JArr (meta # JArr (rows currentPage) # rest),
               sent @ [page_request ep params currentPage perPage])"
      and pg: "own_prop (str ''pages'') meta = Some (JNum (of_nat N))"
      unfolding page_request_def by (rule request_envelope)
    have stop: "pages_reached currentPage meta = Inr (N \<le> currentPage)"
      using pg by (rule pages_reached_declared)
    have "currentPage \<le> ?k" using True hi by simp
    then have "currentPage < Suc ?k" by (rule le_imp_less_Suc)
    then have upt: "[currentPage..<Suc ?k] = currentPage # [Suc currentPage..<Suc ?k]"
      by (rule upt_conv_Cons)
    show ?thesis
    proof (cases "N \<le> currentPage")
      case stop_now: True
      with lo hi True have "?k = currentPage" by (auto simp: min_def max_def)
      then have "[currentPage..<Suc ?k] = [currentPage]" by simp
      then show ?thesis
        using True req stop stop_now by (subst getCompleteList_loop.simps) simp
    next
      case go_on: False
      have IH: "getCompleteList_loop api ep params maxPages perPage
                  (js_concat allData (JArr (rows currentPage))) (currentPage + 1)
                  (sent @ [page_request ep params currentPage perPage]) =
                (js_concat allData (JArr (rows currentPage))
                   @ concat (map rows [currentPage + 1..<Suc ?k]),
                 (sent @ [page_request ep params currentPage perPage])
                   @ map (\<lambda>p. page_request ep params p perPage) [currentPage + 1..<Suc ?k])"
        using "1.IH"[OF True req[symmetric] refl, of False] stop go_on serves len lo
        by simp
      show ?thesis
        using True req stop go_on IH upt
        by (subst getCompleteList_loop.simps) simp
    qed
  qed
qed

text \<open>
  Whatever the upstream answers, the aggregator sends at most \<open>maxPages\<close> requests.
\<close>

lemma loop_request_bound:
  "length (snd (getCompleteList_loop api ep params maxPages perPage allData currentPage sent))
     \<le> length sent + (Suc maxPages - currentPage)"
proof (induction api ep params maxPages perPage allData currentPage sent
    rule: getCompleteList_loop.induct)
  case (1 api ep params maxPages perPage allData currentPage sent)
  obtain response sent' where
    r: "makeWorldBankRequest api ep (page_params params currentPage perPage) sent = (response, sent')"
    by (cases "makeWorldBankRequest api ep (page_params params currentPage perPage) sent")
  then have s': "length sent' = Suc (length sent)"
    using makeWorldBankRequest_sent[of api ep "page_params params currentPage perPage" sent] by simp
  show ?case
  proof (cases "currentPage \<le> maxPages")
    case False
    then show ?thesis by (subst getCompleteList_loop.simps) simp
  next
    case True
    show ?thesis
    proof (cases "\<exists>xs. response = JArr xs \<and> \<not> length xs < 2
                    \<and> pages_reached currentPage (xs ! 0) = Inr False")
      case False
      then have "snd (getCompleteList_loop api ep params maxPages perPage allData currentPage sent) = sent'"
        using True r
        by (subst getCompleteList_loop.simps) (auto split: json.splits sum.splits)
      with s' True show ?thesis by simp
    next
      case go_on: True
      then obtain xs where xs: "response = JArr xs" "\<not> length xs < 2"
        "pages_reached currentPage (xs ! 0) = Inr False" by blast
      have "snd (getCompleteList_loop api ep params maxPages perPage allData currentPage sent) =
              snd (getCompleteList_loop api ep params maxPages perPage (js_concat allData (xs ! 1))
                     (currentPage + 1) sent')"
        using True r xs by (subst getCompleteList_loop.simps) simp
      with "1.IH"[OF True r[symmetric] xs(1) xs(2) xs(3)] s' True show ?thesis by simp
    qed
  qed
qed

lemma getCompleteList_request_bound:
  "length (snd (getCompleteList api ep params maxPages perPage sent)) \<le> length sent + maxPages"
  using loop_request_bound[of api ep params maxPages perPage "[]" 1 sent]
  by (simp add: getCompleteList_def)

lemma requested_page_request [simp]: "requested_page (page_request ep [] p perPage) = p"
  by (simp add: requested_page_def page_request_def request_of_def defaultParams_def
      page_params_def spread_def)

text \<open>
  C1, as amended.  On an upstream that serves the pages of an \<open>N\<close>-page collection,
  \<^verbatim>\<open>getCompleteList\<close> returns the concatenation of the payload arrays of the pages
  \<open>1, \<dots>, k\<close> in ascending order and sends exactly the \<open>k\<close> requests for these pages,
  where \<open>k = min (max N 1) maxPages\<close>: at most \<open>min N maxPages\<close> requests when
  \<open>N \<ge> 1\<close>, and one request when the metadata declares \<open>N = 0\<close> and \<open>maxPages \<ge> 1\<close>.
\<close>

theorem getCompleteList_pages:
  assumes "\<forall>p \<in> {1..min (max N 1) maxPages}.
             serves_page api (length sent + p - 1) (page_request ep params p perPage) N (rows p)"
  shows "getCompleteList api ep params maxPages perPage sent =
           (concat (map rows [1..<Suc (min (max N 1) maxPages)]),
            sent @ map (\<lambda>p. page_request ep params p perPage) [1..<Suc (min (max N 1) maxPages)])"
  unfolding getCompleteList_def
  using loop_pages[OF assms, of 1 sent "[]"] by simp

theorem getCompleteList_pages_witness:
  "serves_page two_pages_api 0 (page_request (str ''countries'') [] 1 100) 2 (page_rows 1)
   \<and> serves_page two_pages_api 1 (page_request (str ''countries'') [] 2 100) 2 (page_rows 2)
   \<and> getCompleteList two_pages_api (str ''countries'') [] 5 100 [] =
       ([JRec usa, JRec world, JRec chn],
        [page_request (str ''countries'') [] 1 100, page_request (str ''countries'') [] 2 100])"
proof -
  have h: "\<forall>p \<in> {1..min (max 2 1) 5}.
      serves_page two_pages_api (length ([] :: Request list) + p - 1)
        (page_request (str ''countries'') [] p 100) 2 (page_rows p)"
    by (simp add: serves_page_def two_pages_api_def metadata_def)
  have pages: "[1..<Suc (min (max 2 1) 5)] = [1, 2]"
    by (simp add: upt_rec numeral_2_eq_2)
  have "getCompleteList two_pages_api (str ''countries'') [] 5 100 [] =
       ([JRec usa, JRec world, JRec chn],
        [page_request (str ''countries'') [] 1 100, page_request (str ''countries'') [] 2 100])"
    using getCompleteList_pages[OF h] unfolding pages
    by (simp add: page_rows_def)
  moreover have "serves_page two_pages_api 0 (page_request (str ''countries'') [] 1 100) 2 (page_rows 1)"
    by (simp add: serves_page_def two_pages_api_def metadata_def)
  moreover have "serves_page two_pages_api 1 (page_request (str ''countries'') [] 2 100) 2 (page_rows 2)"
    by (simp add: serves_page_def two_pages_api_def metadata_def)
  ultimately show ?thesis by simp
qed

text \<open>
  C1 as stated fails where the metadata declares zero pages: the first request has been
  sent before the declared total is known, and \<open>1 > min 0 maxPages\<close>.
\<close>

theorem getCompleteList_zero_pages_counterexample:
  "serves_page zero_pages_api 0 (page_request (str ''countries'') [] 1 100) 0 []
   \<and> \<not> length (snd (getCompleteList zero_pages_api (str ''countries'') [] 5 100 [])) \<le> min 0 5"
proof -
  have h: "\<forall>p \<in> {1..min (max 0 1) 5}.
      serves_page zero_pages_api (length ([] :: Request list) + p - 1)
        (page_request (str ''countries'') [] p 100) 0 ((\<lambda>p. []) p)"
    by (simp add: serves_page_def zero_pages_api_def metadata_def)
  have "getCompleteList zero_pages_api (str ''countries'') [] 5 100 [] =
          ([], [page_request (str ''countries'') [] 1 100])"
    using loop_pages[OF h, of 1 "[]" "[]"] by (simp add: getCompleteList_def)
  moreover have "serves_page zero_pages_api 0 (page_request (str ''countries'') [] 1 100) 0 []"
    by (simp add: serves_page_def zero_pages_api_def metadata_def)
  ultimately show ?thesis by simp
qed

section \<open>Properties of the fetch primitive\<close>

lemma makeWorldBankRequest_Data:
  assumes "api (length sent) (request_of ep params) = Data body"
  shows "makeWorldBankRequest api ep params sent =
           (if no_data_body body then JNull else body, sent @ [request_of ep params])"
proof (cases body)
  case (JArr xs)
  then show ?thesis using assms
    by (cases xs) (simp_all add: makeWorldBankRequest_def Let_def)
qed (use assms in \<open>simp_all add: makeWorldBankRequest_def\<close>)

lemma as_rows_map_JRec [simp]: "as_rows (map JRec rows) = Some rows"
  by (induction rows) (simp_all add: as_rows_def)

lemma loop_no_data:
  assumes "no_data_body body"
    and "api (length sent) (page_request ep params currentPage perPage) = Data body"
    and "currentPage \<le> maxPages"
  shows "getCompleteList_loop api ep params maxPages perPage allData currentPage sent =
           (allData, sent @ [page_request ep params currentPage perPage])"
proof -
  have "makeWorldBankRequest api ep (page_params params currentPage perPage) sent =
          (JNull, sent @ [page_request ep params currentPage perPage])"
    using makeWorldBankRequest_Data[of api sent ep "page_params params currentPage perPage" body] assms
    by (simp add: page_request_def)
  then show ?thesis
    using assms(3) by (subst getCompleteList_loop.simps) simp
qed

lemma getCountryData_no_data:
  assumes "no_data_body body"
    and "api (length sent) (data_request countryCode indicatorId years) = Data body"
  shows "getCountryData api countryCode indicatorId years sent =
           (Some [], sent @ [data_request countryCode indicatorId years])"
  using makeWorldBankRequest_Data[of api sent "(str ''country/'') @ countryCode @ (str ''/indicator/'') @ indicatorId"
      "[((str ''per_page''), QNum years)]" body] assms
  by (simp add: getCountryData_def data_request_def)

text \<open>
  C2, as amended.  For every response body that is an empty array, or an array whose
  first element carries a truthy \<^verbatim>\<open>message\<close> (not \<^verbatim>\<open>null\<close>, \<^verbatim>\<open>false\<close>, \<^verbatim>\<open>0\<close> or
  the empty string), \<^verbatim>\<open>makeWorldBankRequest\<close> returns \<^verbatim>\<open>null\<close> and not the body.
  Its callers degrade without an exception: the loop of \<^verbatim>\<open>getCompleteList\<close> stops and
  returns what it has collected from the earlier pages (nothing when the page is the
  first), and \<^verbatim>\<open>getCountryData\<close> returns an empty collection.
\<close>

theorem no_data_degrades:
  "(no_data_body body \<and> api (length sent) (request_of ep params) = Data body
      \<longrightarrow> makeWorldBankRequest api ep params sent = (JNull, sent @ [request_of ep params]))
   \<and> (no_data_body body \<and> api (length sent) (page_request ep params currentPage perPage) = Data body
        \<and> currentPage \<le> maxPages
      \<longrightarrow> getCompleteList_loop api ep params maxPages perPage allData currentPage sent =
            (allData, sent @ [page_request ep params currentPage perPage]))
   \<and> (no_data_body points \<and> data (length sent) (data_request countryCode indicatorId years) = Data points
      \<longrightarrow> getCountryData data countryCode indicatorId years sent =
            (Some [], sent @ [data_request countryCode indicatorId years]))"
  using makeWorldBankRequest_Data[of api sent ep params body]
    loop_no_data[of body api sent ep params currentPage perPage maxPages allData]
    getCountryData_no_data[of points data sent countryCode indicatorId years]
  by simp

theorem no_data_degrades_witness:
  "no_data_body (error_body :: DataPoint json)
   \<and> makeWorldBankRequest (error_api :: DataPoint api) (str ''countries'') [] [] =
       (JNull, [request_of (str ''countries'') []])
   \<and> getCompleteList (error_api :: DataPoint api) (str ''countries'') [] 5 100 [] =
       ([], [page_request (str ''countries'') [] 1 100])
   \<and> getCountryData error_api (str ''ZZZ'') (str ''NY.GDP.MKTP.CD'') 10 [] =
       (Some [], [data_request (str ''ZZZ'') (str ''NY.GDP.MKTP.CD'') 10])"
  using no_data_degrades[of "error_body :: DataPoint json" error_api "[]" "(str ''countries'')" "[]" 1 100 5 "[]"
      error_body error_api "(str ''ZZZ'')" "(str ''NY.GDP.MKTP.CD'')" 10]
  by (simp add: error_api_def error_body_def getCompleteList_def)

text \<open>
  C2 as stated fails for a first element whose \<^verbatim>\<open>message\<close> is falsy: the test
  \<^verbatim>\<open>firstItem && firstItem.message\<close> is false for the empty string, and the body is
  returned.
\<close>

theorem blank_message_counterexample:
  "own_prop (str ''message'') (JObj [((str ''message''), JStr (str ''''))] :: Country json) = Some (JStr (str ''''))
   \<and> fst (makeWorldBankRequest (blank_message_api :: Country api) (str ''countries'') [] [])
       = JArr [JObj [((str ''message''), JStr (str ''''))]]
   \<and> fst (makeWorldBankRequest (blank_message_api :: Country api) (str ''countries'') [] []) \<noteq> JNull"
  by (simp add: makeWorldBankRequest_def blank_message_api_def blank_message_body_def)

section \<open>Properties of the indicator data query\<close>

lemma elem1_truthy: "elem1 body = Some v \<Longrightarrow> truthy body"
  by (cases body) (auto split: if_splits)

lemma getCountryData_values:
  assumes "getCountryData api countryCode indicatorId years sent = (Some data, sent')"
  shows "\<forall>point \<in> set data. point_value point \<noteq> None"
  using assms
  by (auto simp: getCountryData_def split: prod.splits if_splits option.splits json.splits)

lemma getCountryData_rows:
  assumes "api (length sent) (data_request countryCode indicatorId years) = Data body"
    and "\<not> no_data_body body" and "elem1 body = Some (JArr (map JRec rows))"
  shows "getCountryData api countryCode indicatorId years sent =
           (Some (filter (\<lambda>point. point_value point \<noteq> None) rows),
            sent @ [data_request countryCode indicatorId years])"
proof -
  have "truthy body" using assms(3) by (rule elem1_truthy)
  then show ?thesis
    using makeWorldBankRequest_Data[of api sent "(str ''country/'') @ countryCode @ (str ''/indicator/'') @ indicatorId"
        "[((str ''per_page''), QNum years)]" body] assms
    by (simp add: getCountryData_def data_request_def)
qed

text \<open>
  C4.  For every country code, indicator id and year count, the collection returned by
  \<^verbatim>\<open>getCountryData\<close> holds no record whose value is \<^verbatim>\<open>null\<close>; and when the upstream
  returns the rows \<open>rows\<close> at index 1 of its body, the result is exactly the rows with a
  value, in the order of the upstream.
\<close>

theorem getCountryData_no_null_in_order:
  "(getCountryData api countryCode indicatorId years sent = (Some data, sent')
      \<longrightarrow> (\<forall>point \<in> set data. point_value point \<noteq> None))
   \<and> (api (length sent) (data_request countryCode indicatorId years) = Data body
        \<and> \<not> no_data_body body \<and> elem1 body = Some (JArr (map JRec rows))
      \<longrightarrow> getCountryData api countryCode indicatorId years sent =
            (Some (filter (\<lambda>point. point_value point \<noteq> None) rows),
             sent @ [data_request countryCode indicatorId years]))"
  using getCountryData_values[of api countryCode indicatorId years sent data sent']
    getCountryData_rows[of api sent countryCode indicatorId years body rows]
  by blast

theorem getCountryData_no_null_in_order_witness:
  "getCountryData points_api (str ''USA'') (str ''NY.GDP.MKTP.CD'') 4 [] =
     (Some [a_point ''2022'' (Some 25), a_point ''2020'' (Some 21)],
      [data_request (str ''USA'') (str ''NY.GDP.MKTP.CD'') 4])
   \<and> point_value (a_point ''2022'' (Some 25)) \<noteq> None
   \<and> point_value (a_point ''2020'' (Some 21)) \<noteq> None"
  using getCountryData_no_null_in_order[of points_api "(str ''USA'')" "(str ''NY.GDP.MKTP.CD'')" 4 "[]"
      "[a_point ''2022'' (Some 25), a_point ''2020'' (Some 21)]"
      "[data_request (str ''USA'') (str ''NY.GDP.MKTP.CD'') 4]"
      "JArr [metadata 1,
                 JArr [JRec (a_point ''2023'' None), JRec (a_point ''2022'' (Some 25)),
                       JRec (a_point ''2021'' None), JRec (a_point ''2020'' (Some 21))]]"
      "[a_point ''2023'' None, a_point ''2022'' (Some 25), a_point ''2021'' None, a_point ''2020'' (Some 21)]"]
  by (simp add: points_api_def metadata_def a_point_def)

section \<open>Properties of the reference-data cache\<close>

lemma getCountries_cases:
  obtains (cached) "COUNTRIES_CACHE s \<noteq> []" "getCountries api s = (Some (COUNTRIES_CACHE s), s)"
  | (empty) sent' where "COUNTRIES_CACHE s = []"
      "getCompleteList api (str ''countries'') [] 5 100 (requests s) = ([], sent')"
      "getCountries api s = (Some [], s\<lparr>requests := sent'\<rparr>)"
  | (ill_typed) allCountries sent' where "COUNTRIES_CACHE s = []"
      "getCompleteList api (str ''countries'') [] 5 100 (requests s) = (allCountries, sent')"
      "as_rows allCountries = None"
      "getCountries api s = (None, s\<lparr>requests := sent'\<rparr>)"
  | (fetched) allCountries sent' rows where "COUNTRIES_CACHE s = []"
      "getCompleteList api (str ''countries'') [] 5 100 (requests s) = (allCountries, sent')"
      "allCountries \<noteq> []" "as_rows allCountries = Some rows"
      "getCountries api s =
         (Some (filter real_country rows),
          s\<lparr>COUNTRIES_CACHE := filter real_country rows, requests := sent'\<rparr>)"
proof (cases "COUNTRIES_CACHE s = []")
  case False
  then show ?thesis by (intro cached) (simp_all add: getCountries_def)
next
  case True
  obtain allCountries sent' where
    g: "getCompleteList api (str ''countries'') [] 5 100 (requests s) = (allCountries, sent')"
    by (cases "getCompleteList api (str ''countries'') [] 5 100 (requests s)")
  show ?thesis
  proof (cases "allCountries = []")
    case True
    with \<open>COUNTRIES_CACHE s = []\<close> g show ?thesis
      by (intro empty[of sent']) (simp_all add: getCountries_def)
  next
    case False
    show ?thesis
    proof (cases "as_rows allCountries")
      case None
      with \<open>COUNTRIES_CACHE s = []\<close> g False show ?thesis
        by (intro ill_typed[of allCountries sent']) (simp_all add: getCountries_def)
    next
      case (Some rows)
      with \<open>COUNTRIES_CACHE s = []\<close> g False show ?thesis
        by (intro fetched[of allCountries sent' rows])
          (simp_all add: getCountries_def real_country_def[abs_def] Let_def)
    qed
  qed
qed

lemma getCountries_cache_ok:
  assumes "cache_ok s"
  shows "cache_ok (snd (getCountries api s))"
proof (rule getCountries_cases[of s api])
qed (use assms in \<open>simp_all add: cache_ok_def list_all_iff\<close>)

lemma getCountries_result_real:
  assumes "cache_ok s" and "fst (getCountries api s) = Some countries"
  shows "list_all real_country countries"
proof (rule getCountries_cases[of s api])
qed (use assms in \<open>auto simp: cache_ok_def list_all_iff\<close>)

lemma getIndicators_countries [simp]:
  "COUNTRIES_CACHE (snd (getIndicators api s)) = COUNTRIES_CACHE s"
  by (simp add: getIndicators_def split: prod.splits option.splits)

lemma handleIndicatorData_countries:
  "COUNTRIES_CACHE (snd (handleIndicatorData wb rt countryCode indicatorKey years s)) =
     COUNTRIES_CACHE s
   \<or> COUNTRIES_CACHE (snd (handleIndicatorData wb rt countryCode indicatorKey years s)) =
     COUNTRIES_CACHE (snd (getCountries (countries_api wb) s))"
  by (simp add: handleIndicatorData_def Let_def split: prod.splits option.splits)

lemma get_countries_tool_state [simp]:
  "snd (get_countries_tool wb region_arg incomeLevel_arg s) = snd (getCountries (countries_api wb) s)"
  by (simp add: get_countries_tool_def Let_def split: prod.splits option.splits)

lemma get_country_info_tool_state [simp]:
  "snd (get_country_info_tool wb rt countryCode s) = snd (getCountries (countries_api wb) s)"
  by (simp add: get_country_info_tool_def split: prod.splits option.splits)

lemma search_indicators_tool_state [simp]:
  "snd (search_indicators_tool wb rt keyword s) = snd (getIndicators (indicators_api wb) s)"
  by (simp add: search_indicators_tool_def Let_def split: prod.splits option.splits)

lemma reachable_cache_ok: "reachable s \<Longrightarrow> cache_ok s"
proof (induction rule: reachable.induct)
  case start
  show ?case by (simp add: cache_ok_def initial_state_def)
next
  case (loaded s wb)
  from loaded.IH have "cache_ok (snd (getCountries (countries_api wb) s))"
    by (rule getCountries_cache_ok)
  then show ?case by (simp add: preload_def cache_ok_def)
next
  case (listed s wb region_arg incomeLevel_arg)
  then show ?case by (simp add: getCountries_cache_ok)
next
  case (described s wb rt countryCode)
  then show ?case by (simp add: getCountries_cache_ok)
next
  case (searched s wb rt keyword)
  then show ?case by (simp add: cache_ok_def)
next
  case (queried s config wb rt countryCode indicator years)
  from queried.IH have "cache_ok (snd (getCountries (countries_api wb) s))"
    by (rule getCountries_cache_ok)
  with queried.IH show ?case
    using handleIndicatorData_countries[of wb rt countryCode indicator
        "case years of None \<Rightarrow> 10 | Some y \<Rightarrow> y" s]
    by (auto simp: indicator_tool_def cache_ok_def)
qed

text \<open>
  C3.  In every reachable state the countries cache holds real countries only, and so
  does every collection that \<^verbatim>\<open>getCountries\<close> returns there: no record whose region is
  \<^verbatim>\<open>Aggregates\<close> and no record whose identifier is not three characters long.
\<close>

theorem countries_are_real:
  assumes "reachable s"
  shows "list_all real_country (COUNTRIES_CACHE s)
         \<and> (\<forall>api countries s'. getCountries api s = (Some countries, s')
               \<longrightarrow> list_all real_country countries \<and> list_all real_country (COUNTRIES_CACHE s'))"
proof -
  have ok: "cache_ok s" using assms by (rule reachable_cache_ok)
  have "list_all real_country countries \<and> list_all real_country (COUNTRIES_CACHE s')"
    if "getCountries api s = (Some countries, s')" for api countries s'
    using getCountries_result_real[OF ok, of api countries] getCountries_cache_ok[OF ok, of api] that
    by (simp add: cache_ok_def)
  with ok show ?thesis by (auto simp: cache_ok_def)
qed

lemma two_pages_countries:
  "getCountries two_pages_api initial_state =
     (Some [usa, chn],
      \<lparr>COUNTRIES_CACHE = [usa, chn], INDICATORS_CACHE = [],
       requests = [page_request (str ''countries'') [] 1 100, page_request (str ''countries'') [] 2 100]\<rparr>)"
proof -
  have h: "\<forall>p \<in> {1..min (max 2 1) 5}.
      serves_page two_pages_api (length (requests initial_state) + p - 1)
        (page_request (str ''countries'') [] p 100) 2 (page_rows p)"
    by (simp add: serves_page_def two_pages_api_def metadata_def)
  have pages: "[1..<Suc (min (max 2 1) 5)] = [1, 2]"
    by (simp add: upt_rec numeral_2_eq_2)
  have g: "getCompleteList two_pages_api (str ''countries'') [] 5 100 [] =
       ([JRec usa, JRec world, JRec chn],
        [page_request (str ''countries'') [] 1 100, page_request (str ''countries'') [] 2 100])"
    using loop_pages[OF h, of 1 "requests initial_state" "[]"] unfolding pages
    by (simp add: page_rows_def getCompleteList_def initial_state_def)
  show ?thesis
    by (simp add: getCountries_def initial_state_def g as_rows_def usa_def chn_def world_def
        a_country_def plain_region_def Let_def)
qed

theorem countries_are_real_witness:
  "reachable (snd (get_countries_tool two_pages None None initial_state))
   \<and> COUNTRIES_CACHE (snd (get_countries_tool two_pages None None initial_state)) = [usa, chn]
   \<and> list_all real_country (COUNTRIES_CACHE (snd (get_countries_tool two_pages None None initial_state)))"
proof -
  have r: "reachable (snd (get_countries_tool two_pages None None initial_state))"
    by (intro reachable.listed reachable.start)
  have "COUNTRIES_CACHE (snd (get_countries_tool two_pages None None initial_state)) = [usa, chn]"
    by (simp add: two_pages_def two_pages_countries)
  with r countries_are_real[OF r] show ?thesis by simp
qed

lemma loop_sent_prefix:
  "\<exists>more. snd (getCompleteList_loop api ep params maxPages perPage allData currentPage sent) = sent @ more"
proof (induction api ep params maxPages perPage allData currentPage sent
    rule: getCompleteList_loop.induct)
  case (1 api ep params maxPages perPage allData currentPage sent)
  obtain response sent' where
    r: "makeWorldBankRequest api ep (page_params params currentPage perPage) sent = (response, sent')"
    by (cases "makeWorldBankRequest api ep (page_params params currentPage perPage) sent")
  then have s': "sent' = sent @ [request_of ep (page_params params currentPage perPage)]"
    using makeWorldBankRequest_sent[of api ep "page_params params currentPage perPage" sent] by simp
  show ?case
  proof (cases "currentPage \<le> maxPages")
    case False
    then show ?thesis by (subst getCompleteList_loop.simps) simp
  next
    case True
    show ?thesis
    proof (cases "\<exists>xs. response = JArr xs \<and> \<not> length xs < 2
                    \<and> pages_reached currentPage (xs ! 0) = Inr False")
      case False
      then have "snd (getCompleteList_loop api ep params maxPages perPage allData currentPage sent) = sent'"
        using True r
        by (subst getCompleteList_loop.simps) (auto split: json.splits sum.splits)
      with s' show ?thesis by simp
    next
      case go_on: True
      then obtain xs where xs: "response = JArr xs" "\<not> length xs < 2"
        "pages_reached currentPage (xs ! 0) = Inr False" by blast
      from "1.IH"[OF True r[symmetric] xs(1) xs(2) xs(3)]
      obtain more where
        "snd (getCompleteList_loop api ep params maxPages perPage (js_concat allData (xs ! 1))
               (currentPage + 1) sent') = sent' @ more"
        by auto
      then have "snd (getCompleteList_loop api ep params maxPages perPage allData currentPage sent) =
                   sent' @ more"
        using True r xs by (subst getCompleteList_loop.simps) simp
      with s' show ?thesis by simp
    qed
  qed
qed

lemma getCompleteList_first_request:
  assumes "1 \<le> maxPages"
  shows "\<exists>more. snd (getCompleteList api ep params maxPages perPage sent) =
           sent @ page_request ep params 1 perPage # more"
proof -
  obtain response sent' where
    r: "makeWorldBankRequest api ep (page_params params 1 perPage) sent = (response, sent')"
    by (cases "makeWorldBankRequest api ep (page_params params 1 perPage) sent")
  then have s': "sent' = sent @ [page_request ep params 1 perPage]"
    using makeWorldBankRequest_sent[of api ep "page_params params 1 perPage" sent]
    by (simp add: page_request_def)
  show ?thesis
  proof (cases "\<exists>xs. response = JArr xs \<and> \<not> length xs < 2
                  \<and> pages_reached 1 (xs ! 0) = Inr False")
    case False
    then have "snd (getCompleteList api ep params maxPages perPage sent) = sent'"
      using assms r unfolding getCompleteList_def
      by (subst getCompleteList_loop.simps) (auto split: json.splits sum.splits)
    with s' show ?thesis by simp
  next
    case True
    then obtain xs where xs: "response = JArr xs" "\<not> length xs < 2"
      "pages_reached 1 (xs ! 0) = Inr False" by blast
    obtain more where
      "snd (getCompleteList_loop api ep params maxPages perPage (js_concat [] (xs ! 1)) (1 + 1) sent')
         = sent' @ more"
      using loop_sent_prefix by blast
    then have "snd (getCompleteList api ep params maxPages perPage sent) = sent' @ more"
      using assms r xs unfolding getCompleteList_def
      by (subst getCompleteList_loop.simps) simp
    with s' show ?thesis by simp
  qed
qed

lemma getCountries_refetch:
  assumes "COUNTRIES_CACHE s = []"
  shows "\<exists>more. requests (snd (getCountries api s)) =
           requests s @ page_request (str ''countries'') [] 1 100 # more"
proof -
  have "requests (snd (getCountries api s)) =
          snd (getCompleteList api (str ''countries'') [] 5 100 (requests s))"
    using assms by (simp add: getCountries_def Let_def split: prod.splits option.splits)
  then show ?thesis
    using getCompleteList_first_request[of 5 api "(str ''countries'')" "[]" 100 "requests s"] by simp
qed

text \<open>
  C6.  When a call to \<^verbatim>\<open>getCountries\<close> leaves a non-empty cache, the next call returns
  the same collection and leaves the state as it is, so it sends no request, whatever
  the upstream would answer.  When the fetch yields nothing, the call returns an empty
  collection, the cache stays empty, and the next call sends the request for page 1
  again.
\<close>

theorem getCountries_caches_successes:
  "(getCountries api s = (Some countries, s1) \<and> COUNTRIES_CACHE s1 \<noteq> []
      \<longrightarrow> countries = COUNTRIES_CACHE s1 \<and> getCountries api2 s1 = (Some countries, s1))
   \<and> (COUNTRIES_CACHE s = [] \<and> fst (getCompleteList api (str ''countries'') [] 5 100 (requests s)) = []
        \<and> getCountries api s = (result, s1)
      \<longrightarrow> result = Some [] \<and> COUNTRIES_CACHE s1 = []
          \<and> (\<exists>more. requests (snd (getCountries api2 s1)) =
                requests s1 @ page_request (str ''countries'') [] 1 100 # more))"
proof (intro conjI impI)
  assume a: "getCountries api s = (Some countries, s1) \<and> COUNTRIES_CACHE s1 \<noteq> []"
  show "countries = COUNTRIES_CACHE s1"
  proof (rule getCountries_cases[of s api])
  qed (use a in auto)
  then show "getCountries api2 s1 = (Some countries, s1)"
    using a by (simp add: getCountries_def)
next
  assume b: "COUNTRIES_CACHE s = [] \<and> fst (getCompleteList api (str ''countries'') [] 5 100 (requests s)) = []
        \<and> getCountries api s = (result, s1)"
  then have r: "result = Some [] \<and> COUNTRIES_CACHE s1 = []"
    by (auto simp: getCountries_def split: prod.splits)
  then show "result = Some []" and "COUNTRIES_CACHE s1 = []" by simp_all
  from r show "\<exists>more. requests (snd (getCountries api2 s1)) =
                requests s1 @ page_request (str ''countries'') [] 1 100 # more"
    using getCountries_refetch[of s1 api2] by simp
qed

theorem getCountries_caches_successes_witness:
  "getCountries two_pages_api initial_state =
     (Some [usa, chn],
      \<lparr>COUNTRIES_CACHE = [usa, chn], INDICATORS_CACHE = [],
       requests = [page_request (str ''countries'') [] 1 100, page_request (str ''countries'') [] 2 100]\<rparr>)
   \<and> getCountries down_api
       \<lparr>COUNTRIES_CACHE = [usa, chn], INDICATORS_CACHE = [],
        requests = [page_request (str ''countries'') [] 1 100, page_request (str ''countries'') [] 2 100]\<rparr> =
     (Some [usa, chn],
      \<lparr>COUNTRIES_CACHE = [usa, chn], INDICATORS_CACHE = [],
       requests = [page_request (str ''countries'') [] 1 100, page_request (str ''countries'') [] 2 100]\<rparr>)
   \<and> getCountries down_api initial_state =
       (Some [],
        \<lparr>COUNTRIES_CACHE = [], INDICATORS_CACHE = [],
         requests = [page_request (str ''countries'') [] 1 100]\<rparr>)
   \<and> (\<exists>more. requests (snd (getCountries two_pages_api
          \<lparr>COUNTRIES_CACHE = [], INDICATORS_CACHE = [],
           requests = [page_request (str ''countries'') [] 1 100]\<rparr>)) =
        [page_request (str ''countries'') [] 1 100] @ page_request (str ''countries'') [] 1 100 # more)"
proof -
  let ?s1 = "\<lparr>COUNTRIES_CACHE = [usa, chn], INDICATORS_CACHE = [],
       requests = [page_request (str ''countries'') [] 1 100, page_request (str ''countries'') [] 2 100]\<rparr>"
  let ?s2 = "\<lparr>COUNTRIES_CACHE = [], INDICATORS_CACHE = [],
         requests = [page_request (str ''countries'') [] 1 100]\<rparr>"
  have first: "getCountries two_pages_api initial_state = (Some [usa, chn], ?s1)"
    by (rule two_pages_countries)
  have again: "getCountries down_api ?s1 = (Some [usa, chn], ?s1)"
    using getCountries_caches_successes[of two_pages_api initial_state "[usa, chn]" ?s1 down_api]
      first by simp
  have no_rows: "getCompleteList (down_api :: Country api) (str ''countries'') [] 5 100 [] =
                   ([], [page_request (str ''countries'') [] 1 100])"
    unfolding getCompleteList_def
    by (subst getCompleteList_loop.simps)
      (simp add: makeWorldBankRequest_def down_api_def page_request_def)
  have failed: "getCountries down_api initial_state = (Some [], ?s2)"
    by (simp add: getCountries_def initial_state_def no_rows)
  have "\<exists>more. requests (snd (getCountries two_pages_api ?s2)) =
          requests ?s2 @ page_request (str ''countries'') [] 1 100 # more"
    using getCountries_caches_successes[of down_api initial_state "[]" ?s2 two_pages_api "Some []"]
      failed no_rows by (simp add: initial_state_def)
  with first again failed show ?thesis by simp
qed

section \<open>Properties of the tool handlers\<close>

lemma find_first_match:
  assumes "find P xs = Some found"
  shows "\<exists>before after. xs = before @ found # after \<and> (\<forall>d \<in> set before. \<not> P d) \<and> P found"
  using assms
proof (induction xs)
  case Nil
  then show ?case by simp
next
  case (Cons x xs)
  show ?case
  proof (cases "P x")
    case True
    with Cons.prems have "x = found" by simp
    with True have "x # xs = [] @ found # xs \<and> (\<forall>d \<in> set []. \<not> P d) \<and> P found" by simp
    then show ?thesis by blast
  next
    case False
    with Cons.prems have "find P xs = Some found" by simp
    from Cons.IH[OF this] obtain before after where
      "xs = before @ found # after" "\<forall>d \<in> set before. \<not> P d" "P found" by blast
    with False have "x # xs = (x # before) @ found # after \<and> (\<forall>d \<in> set (x # before). \<not> P d) \<and> P found"
      by simp
    then show ?thesis by blast
  qed
qed

lemma find_country_first:
  assumes "c \<in> set countries" and "matches_code rt code c"
  shows "\<exists>before found after. countries = before @ found # after
           \<and> (\<forall>d \<in> set before. \<not> matches_code rt code d)
           \<and> matches_code rt code found
           \<and> find_country rt countries code = Some found"
proof (cases "find_country rt countries code")
  case None
  then show ?thesis
    using assms by (auto simp: find_country_def matches_code_def find_None_iff)
next
  case (Some found)
  have "matches_code rt code =
          (\<lambda>c. iso2Code c = toUpperCase rt code \<or> country_id c = toUpperCase rt code)"
    by (rule ext) (simp add: matches_code_def)
  with Some have "find (matches_code rt code) countries = Some found"
    by (simp add: find_country_def)
  from find_first_match[OF this] Some show ?thesis by blast
qed

lemma find_country_unique:
  assumes "c \<in> set countries" and "matches_code rt code c"
    and "\<forall>d \<in> set countries. matches_code rt code d \<longrightarrow> d = c"
  shows "find_country rt countries code = Some c"
proof -
  from find_country_first[OF assms(1,2)] obtain before found after where
    f: "countries = before @ found # after" "matches_code rt code found"
       "find_country rt countries code = Some found" by blast
  from f(1) have "found \<in> set countries" by simp
  with assms(3) f(2) have "found = c" by blast
  with f(3) show ?thesis by simp
qed

lemma find_country_None:
  "find_country rt countries code = None \<longleftrightarrow> (\<forall>c \<in> set countries. \<not> matches_code rt code c)"
  by (auto simp: find_country_def matches_code_def find_None_iff)

text \<open>
  C5, as amended.  Whatever the upper-case mapping of the runtime is: for every record
  of the cache whose two codes that mapping leaves unchanged, and every user-supplied
  code that equals the record's 2-letter code or its 3-letter identifier up to letter
  case, the lookup returns exactly one record.  It is the first record, in the order of
  the cache, one of whose two codes is the upper-cased user code: no record before it
  carries that code.  It is the record itself when no other record carries the code.
\<close>

theorem find_country_case_insensitive:
  assumes "c \<in> set countries" and "stored_upper_case rt c"
    and "equal_ignoring_case rt code (iso2Code c) \<or> equal_ignoring_case rt code (country_id c)"
  shows "(\<exists>before found after. countries = before @ found # after
            \<and> (\<forall>d \<in> set before. \<not> matches_code rt code d)
            \<and> matches_code rt code found
            \<and> find_country rt countries code = Some found)
         \<and> ((\<forall>d \<in> set countries. matches_code rt code d \<longrightarrow> d = c)
              \<longrightarrow> find_country rt countries code = Some c)"
proof -
  have "matches_code rt code c"
    using assms(2,3) by (auto simp: matches_code_def stored_upper_case_def equal_ignoring_case_def)
  with assms(1) show ?thesis
    using find_country_first[of c countries rt code] find_country_unique[of c countries rt code]
    by blast
qed

lemma ascii_upper_cn: "toUpperCase ascii_runtime (str ''cn'') = str ''CN''"
  by (simp add: ascii_runtime_def ascii_upper_def str_def unit_of_def)

lemma ascii_upper_CN: "toUpperCase ascii_runtime (str ''CN'') = str ''CN''"
  by (simp add: ascii_runtime_def ascii_upper_def str_def unit_of_def)

lemma ascii_upper_CHN: "toUpperCase ascii_runtime (str ''CHN'') = str ''CHN''"
  by (simp add: ascii_runtime_def ascii_upper_def str_def unit_of_def)

theorem find_country_case_insensitive_witness:
  "chn_again \<in> set [usa, chn, chn_again] \<and> stored_upper_case ascii_runtime chn_again
   \<and> equal_ignoring_case ascii_runtime (str ''cn'') (iso2Code chn_again)
   \<and> matches_code ascii_runtime (str ''cn'') chn \<and> \<not> matches_code ascii_runtime (str ''cn'') usa
   \<and> chn \<noteq> chn_again
   \<and> find_country ascii_runtime [usa, chn, chn_again] (str ''cn'') = Some chn"
proof -
  have a: "chn_again \<in> set [usa, chn, chn_again]" by simp
  have b: "stored_upper_case ascii_runtime chn_again"
    by (simp add: stored_upper_case_def chn_again_def a_country_def ascii_upper_CN ascii_upper_CHN)
  have c: "equal_ignoring_case ascii_runtime (str ''cn'') (iso2Code chn_again)"
    by (simp add: equal_ignoring_case_def chn_again_def a_country_def ascii_upper_cn ascii_upper_CN)
  have d: "matches_code ascii_runtime (str ''cn'') chn"
    by (simp add: matches_code_def ascii_upper_cn chn_def a_country_def)
  have e: "\<not> matches_code ascii_runtime (str ''cn'') usa"
    by (simp add: matches_code_def ascii_upper_cn usa_def a_country_def)
  have f: "chn \<noteq> chn_again"
    by (simp add: chn_def chn_again_def a_country_def)
  from find_country_case_insensitive[OF a b disjI1[OF c]] obtain before found after where
    g: "[usa, chn, chn_again] = before @ found # after"
       "\<forall>d \<in> set before. \<not> matches_code ascii_runtime (str ''cn'') d"
       "matches_code ascii_runtime (str ''cn'') found"
       "find_country ascii_runtime [usa, chn, chn_again] (str ''cn'') = Some found"
    by blast
  have "found = chn"
  proof (cases before)
    case Nil
    with g(1) have "found = usa" by simp
    with g(3) e show ?thesis by simp
  next
    case (Cons x more)
    with g(1) have x: "x = usa" and rest: "[chn, chn_again] = more @ found # after" by simp_all
    show ?thesis
    proof (cases more)
      case Nil
      with rest show ?thesis by simp
    next
      case (Cons y more')
      with rest have "y = chn" by simp
      with Cons \<open>before = x # more\<close> have "chn \<in> set before" by simp
      with g(2) d show ?thesis by blast
    qed
  qed
  with g(4) a b c d e f show ?thesis by simp
qed

text \<open>
  C5 as stated fails for a record whose codes are not in upper case: only the user's
  code is upper-cased before the comparison.  The record below is a real country of the
  cache, the user's code is its identifier letter for letter, and the lookup finds
  nothing.
\<close>

theorem find_country_lower_case_counterexample:
  "toUpperCase ascii_runtime (str ''usa'') = str ''USA''
   \<and> lower_case_usa \<in> set [lower_case_usa] \<and> real_country lower_case_usa
   \<and> str ''usa'' = country_id lower_case_usa
   \<and> equal_ignoring_case ascii_runtime (str ''usa'') (country_id lower_case_usa)
   \<and> find_country ascii_runtime [lower_case_usa] (str ''usa'') = None"
proof -
  have u: "toUpperCase ascii_runtime (str ''usa'') = str ''USA''"
    by (simp add: ascii_runtime_def ascii_upper_def str_def unit_of_def)
  show ?thesis
    by (simp add: u lower_case_usa_def a_country_def plain_region_def real_country_def
        equal_ignoring_case_def find_country_def)
qed

lemma unsupported_key_no_request:
  assumes "COMMON_INDICATORS_at indicatorKey = Undefined"
  shows "handleIndicatorData wb rt countryCode indicatorKey years s =
           (Some (str ''Error: Unsupported indicator type''), s)"
  using assms by (simp add: handleIndicatorData_def)

lemma COMMON_INDICATORS_at_constructor:
  "COMMON_INDICATORS_at (str ''constructor'') = Inherited (str ''constructor'')"
  by (simp add: COMMON_INDICATORS_at_def COMMON_INDICATORS_def Object_prototype_def)

lemma ascii_upper_US: "toUpperCase ascii_runtime (str ''US'') = str ''US''"
  by (simp add: ascii_runtime_def ascii_upper_def str_def unit_of_def)

text \<open>
  C7 does not hold of the code.  \<^verbatim>\<open>constructor\<close> is no key of the indicator table, yet
  \<^verbatim>\<open>COMMON_INDICATORS["constructor"]\<close> is the inherited, truthy
  \<^verbatim>\<open>Object.prototype.constructor\<close>: the handler does not answer
  \<^verbatim>\<open>Error: Unsupported indicator type\<close>, fetches the countries and queries the data
  endpoint with the text of that function as the indicator id.
\<close>

theorem inherited_key_reaches_network:
  "map_of COMMON_INDICATORS (str ''constructor'') = None
   \<and> handleIndicatorData no_data_world ascii_runtime (str ''US'') (str ''constructor'') 10 initial_state =
       (Some (str ''No data found for United States - constructor''),
        \<lparr>COUNTRIES_CACHE = [usa, chn], INDICATORS_CACHE = [],
         requests = [page_request (str ''countries'') [] 1 100, page_request (str ''countries'') [] 2 100,
                     data_request (str ''USA'') (str ''function Object() { [native code] }'') 10]\<rparr>)"
proof -
  have "find_country ascii_runtime [usa, chn] (str ''US'') = Some usa"
    by (simp add: find_country_def ascii_upper_US usa_def a_country_def)
  moreover have "getCountryData error_api (str ''USA'') (str ''function Object() { [native code] }'') 10
                   [page_request (str ''countries'') [] 1 100, page_request (str ''countries'') [] 2 100] =
                 (Some [], [page_request (str ''countries'') [] 1 100, page_request (str ''countries'') [] 2 100,
                            data_request (str ''USA'') (str ''function Object() { [native code] }'') 10])"
    using getCountryData_no_data[of "error_body :: DataPoint json" error_api
        "[page_request (str ''countries'') [] 1 100, page_request (str ''countries'') [] 2 100]"
        "str ''USA''" "str ''function Object() { [native code] }''" 10]
    by (simp add: error_api_def error_body_def)
  moreover have "indicatorName_of (Inherited (str ''constructor'')) (str ''constructor'') = str ''constructor''"
    by (simp add: indicatorName_of_def COMMON_INDICATORS_def)
  moreover have "map_of COMMON_INDICATORS (str ''constructor'') = None"
    by (simp add: COMMON_INDICATORS_def)
  ultimately show ?thesis
    by (simp add: handleIndicatorData_def COMMON_INDICATORS_at_constructor no_data_world_def
        two_pages_countries formatIndicatorData_def usa_def a_country_def)
qed

text \<open>
  C8.  Whatever the upper-case mapping of the runtime is: for every country code that
  matches no record of the resolved country collection under the lookup by 2-letter code
  or 3-letter identifier, and every indicator key that the table lookup accepts, the
  shared handler and each of the four indicator-data tools return the text
  \<^verbatim>\<open>Error: Country not found\<close> as a normal result; nothing is thrown and no further
  request is sent.
\<close>

theorem country_not_found:
  assumes "\<not> falsy_property (COMMON_INDICATORS_at indicatorKey)"
    and "getCountries (countries_api wb) s = (Some countries, s1)"
    and "\<forall>c \<in> set countries. \<not> matches_code rt countryCode c"
  shows "handleIndicatorData wb rt countryCode indicatorKey years s =
           (Some (str ''Error: Country not found''), s1)
         \<and> indicator_tool config wb rt countryCode indicatorKey years_arg s =
           (Some (str ''Error: Country not found''), s1)"
proof -
  from assms(3) have "find_country rt countries countryCode = None"
    by (simp add: find_country_None)
  with assms(1,2) show ?thesis
    by (simp add: handleIndicatorData_def indicator_tool_def)
qed

lemma COMMON_INDICATORS_at_GDP: "COMMON_INDICATORS_at (str ''GDP'') = Text (str ''NY.GDP.MKTP.CD'')"
  by (simp add: COMMON_INDICATORS_at_def COMMON_INDICATORS_def)

lemma ascii_upper_ZZ: "toUpperCase ascii_runtime (str ''ZZ'') = str ''ZZ''"
  by (simp add: ascii_runtime_def ascii_upper_def str_def unit_of_def)

theorem country_not_found_witness:
  "\<not> falsy_property (COMMON_INDICATORS_at (str ''GDP''))
   \<and> \<not> matches_code ascii_runtime (str ''ZZ'') usa \<and> \<not> matches_code ascii_runtime (str ''ZZ'') chn
   \<and> indicator_tool Economic two_pages ascii_runtime (str ''ZZ'') (str ''GDP'') None initial_state =
       (Some (str ''Error: Country not found''),
        \<lparr>COUNTRIES_CACHE = [usa, chn], INDICATORS_CACHE = [],
         requests = [page_request (str ''countries'') [] 1 100, page_request (str ''countries'') [] 2 100]\<rparr>)"
proof -
  have a: "\<not> falsy_property (COMMON_INDICATORS_at (str ''GDP''))"
    by (simp add: COMMON_INDICATORS_at_GDP)
  have b: "getCountries (countries_api two_pages) initial_state =
     (Some [usa, chn],
      \<lparr>COUNTRIES_CACHE = [usa, chn], INDICATORS_CACHE = [],
       requests = [page_request (str ''countries'') [] 1 100, page_request (str ''countries'') [] 2 100]\<rparr>)"
    by (simp add: two_pages_def two_pages_countries)
  have c: "\<not> matches_code ascii_runtime (str ''ZZ'') usa"
    by (simp add: matches_code_def ascii_upper_ZZ usa_def a_country_def)
  have d: "\<not> matches_code ascii_runtime (str ''ZZ'') chn"
    by (simp add: matches_code_def ascii_upper_ZZ chn_def a_country_def)
  from c d have e: "\<forall>c \<in> set [usa, chn]. \<not> matches_code ascii_runtime (str ''ZZ'') c" by simp
  from country_not_found[OF a b e, of 10 Economic None] a c d
  show ?thesis by simp
qed

text \<open>
  C9.  Whatever the lower-case mapping of the runtime is: for every keyword and every
  catalog, \<^verbatim>\<open>search-indicators\<close> formats at most 20 entries.  They are the indicators
  whose name or id contains the keyword case-insensitively, cut to the first 20 in
  catalog order, so that there are exactly 20 of them when 20 or more match.
\<close>

theorem search_indicators_limit:
  "length (search_indicators rt indicators keyword) \<le> 20
   \<and> search_indicators rt indicators keyword =
       take 20 (filter (matches_keyword rt keyword) indicators)
   \<and> length (search_indicators rt indicators keyword) =
       min 20 (length (filter (matches_keyword rt keyword) indicators))
   \<and> (getIndicators (indicators_api wb) s = (Some indicators, s1)
        \<longrightarrow> search_indicators_tool wb rt keyword s =
              (Some (if search_indicators rt indicators keyword = []
                     then str ''No related indicators found''
                     else join [backslash, unit_of CHR ''n'']
                            (map indicator_line (search_indicators rt indicators keyword))), s1))"
proof -
  have "(\<lambda>indicator.
           str_includes (toLowerCase rt (indicator_name indicator)) (toLowerCase rt keyword)
           \<or> str_includes (toLowerCase rt (indicator_id indicator)) (toLowerCase rt keyword))
        = matches_keyword rt keyword"
    by (rule ext) (simp add: matches_keyword_def contains_ignoring_case_def str_includes_def)
  then have eq: "search_indicators rt indicators keyword =
                   take 20 (filter (matches_keyword rt keyword) indicators)"
    by (simp add: search_indicators_def)
  show ?thesis
    unfolding eq by (simp add: search_indicators_tool_def eq Let_def min_def)
qed

lemma school_matches: "matches_keyword ascii_runtime (str ''SCHOOL'') (school n)"
proof -
  have "toLowerCase ascii_runtime (str ''SCHOOL'') = str ''school''"
    by (simp add: ascii_runtime_def ascii_lower_def str_def unit_of_def)
  moreover have "toLowerCase ascii_runtime (indicator_name (school n)) =
                   str ''school enrollment, primary (% gross)''"
    by (simp add: school_def ascii_runtime_def ascii_lower_def str_def unit_of_def)
  moreover have "sublist (str ''school'') (str ''school enrollment, primary (% gross)'')"
    by (simp add: str_def sublist_code prefix_code)
  ultimately show ?thesis
    by (simp add: matches_keyword_def contains_ignoring_case_def)
qed

lemma catalog_indicators:
  "getIndicators catalog_api initial_state =
     (Some catalog,
      \<lparr>COUNTRIES_CACHE = [], INDICATORS_CACHE = catalog,
       requests = [page_request (str ''indicators'') [] 1 50]\<rparr>)"
proof -
  have h: "\<forall>p \<in> {1..min (max 1 1) 10}.
      serves_page catalog_api (length (requests initial_state) + p - 1)
        (page_request (str ''indicators'') [] p 50) 1 (map JRec catalog)"
    by (simp add: serves_page_def catalog_api_def metadata_def)
  have pages: "[1..<Suc (min (max 1 1) 10)] = [1]"
    by (simp add: upt_rec)
  have g: "getCompleteList catalog_api (str ''indicators'') [] 10 50 [] =
       (map JRec catalog, [page_request (str ''indicators'') [] 1 50])"
    using loop_pages[where rows = "\<lambda>p. map JRec catalog", OF h, of 1 "requests initial_state" "[]"]
    unfolding pages by (simp add: getCompleteList_def initial_state_def)
  have ne: "catalog \<noteq> []"
    by (simp add: catalog_def upt_rec)
  show ?thesis
    using ne by (simp add: getIndicators_def initial_state_def g)
qed

theorem search_indicators_limit_witness:
  "length catalog = 25 \<and> distinct catalog
   \<and> filter (matches_keyword ascii_runtime (str ''SCHOOL'')) catalog = catalog
   \<and> search_indicators ascii_runtime catalog (str ''SCHOOL'') = map school [0..<20]
   \<and> length (search_indicators ascii_runtime catalog (str ''SCHOOL'')) = 20
   \<and> search_indicators_tool two_pages ascii_runtime (str ''SCHOOL'') initial_state =
       (Some (join [backslash, unit_of CHR ''n''] (map indicator_line (map school [0..<20]))),
        \<lparr>COUNTRIES_CACHE = [], INDICATORS_CACHE = catalog,
         requests = [page_request (str ''indicators'') [] 1 50]\<rparr>)"
proof -
  have len: "length catalog = 25"
    by (simp add: catalog_def)
  have "inj school"
  proof (rule injI)
    fix a b assume "school a = school b"
    then have "length (indicator_id (school a)) = length (indicator_id (school b))" by simp
    then show "a = b" by (simp add: school_def)
  qed
  then have dist: "distinct catalog"
    by (simp add: catalog_def distinct_map inj_on_def inj_def)
  have all: "filter (matches_keyword ascii_runtime (str ''SCHOOL'')) catalog = catalog"
    by (simp add: catalog_def school_matches)
  have "[0..<25] = [0..<20] @ [20..<25]"
    using upt_add_eq_append[of 0 20 5] by simp
  then have first: "take 20 catalog = map school [0..<20]"
    by (simp add: catalog_def)
  have cached: "getIndicators (indicators_api two_pages) initial_state =
     (Some catalog,
      \<lparr>COUNTRIES_CACHE = [], INDICATORS_CACHE = catalog,
       requests = [page_request (str ''indicators'') [] 1 50]\<rparr>)"
    by (simp add: two_pages_def catalog_indicators)
  have ne: "map school [0..<20] \<noteq> []"
    by (simp add: upt_rec)
  from search_indicators_limit[of ascii_runtime catalog "str ''SCHOOL''" two_pages initial_state
      "\<lparr>COUNTRIES_CACHE = [], INDICATORS_CACHE = catalog,
        requests = [page_request (str ''indicators'') [] 1 50]\<rparr>"]
    all first cached ne len dist
  show ?thesis by simp
qed

lemma js_trim_Nil_iff: "js_trim t = [] \<longleftrightarrow> list_all is_ws t"
proof
  assume "js_trim t = []"
  then have "dropWhile is_ws (rev (dropWhile is_ws t)) = []"
    by (simp add: js_trim_def)
  then have all: "\<forall>c \<in> set (dropWhile is_ws t). is_ws c"
    by (simp add: dropWhile_eq_Nil_conv)
  have "dropWhile is_ws t = []"
  proof (rule ccontr)
    assume ne: "dropWhile is_ws t \<noteq> []"
    then have "\<not> is_ws (hd (dropWhile is_ws t))" by (rule hd_dropWhile)
    moreover have "hd (dropWhile is_ws t) \<in> set (dropWhile is_ws t)" using ne by simp
    ultimately show False using all by blast
  qed
  then show "list_all is_ws t"
    by (simp add: dropWhile_eq_Nil_conv list_all_iff)
next
  assume "list_all is_ws t"
  then have h: "dropWhile is_ws t = []"
    by (simp add: dropWhile_eq_Nil_conv list_all_iff)
  show "js_trim t = []" unfolding js_trim_def h by simp
qed

text \<open>
  C10.  \<^verbatim>\<open>get-countries\<close> keeps a country iff its region value contains the region
  argument and its income-level value contains the income-level argument, as
  substrings; an argument that is absent, empty or made of white space only (every
  code unit that \<^verbatim>\<open>trim\<close> strips, the no-break space among them) filters nothing.
\<close>

theorem get_countries_filters:
  "filter_countries countries region_arg incomeLevel_arg =
     filter (\<lambda>c. passes region_arg (region_value (region c))
                \<and> passes incomeLevel_arg (region_value (incomeLevel c))) countries
   \<and> (getCountries (countries_api wb) s = (Some countries, s1)
        \<longrightarrow> get_countries_tool wb region_arg incomeLevel_arg s =
              (Some (if filter_countries countries region_arg incomeLevel_arg = []
                     then str ''No countries found matching the criteria''
                     else join [backslash, unit_of CHR ''n'']
                            (map country_line (filter_countries countries region_arg incomeLevel_arg))),
               s1))"
proof -
  have blank: "(t \<noteq> [] \<and> js_trim t \<noteq> []) \<longleftrightarrow> \<not> list_all is_ws t" for t
    using js_trim_Nil_iff[of t] by (cases t) auto
  have 1: "filter_countries countries region_arg incomeLevel_arg =
     filter (\<lambda>c. passes region_arg (region_value (region c))
                \<and> passes incomeLevel_arg (region_value (incomeLevel c))) countries"
    by (cases region_arg; cases incomeLevel_arg)
      (auto simp: filter_countries_def passes_def str_includes_def blank Let_def
        intro!: filter_cong)
  have line_ne: "country_line c \<noteq> []" for c
    by (simp add: country_line_def)
  have join_ne: "join sep (x # xs) \<noteq> []" if "x \<noteq> []" for sep :: jsstring and x xs
    using that by (cases xs) simp_all
  have 2: "(join [backslash, unit_of CHR ''n''] (map country_line cs) = []) = (cs = [])" for cs
    using line_ne join_ne by (cases cs) auto
  show ?thesis
    using 1 by (simp add: get_countries_tool_def Let_def 2)
qed

theorem get_countries_filters_witness:
  "list_all is_ws [0x00A0, 0x0020]
   \<and> filter_countries [usa, chn] (Some (str ''Asia'')) (Some [0x00A0, 0x0020]) = [chn]
   \<and> passes (Some (str ''Asia'')) (region_value (region chn))
   \<and> \<not> passes (Some (str ''Asia'')) (region_value (region usa))
   \<and> passes (Some [0x00A0, 0x0020]) (region_value (incomeLevel chn))
   \<and> fst (get_countries_tool two_pages (Some (str ''Asia'')) (Some [0x00A0, 0x0020]) initial_state) =
       Some (str ''China (CN) - East Asia & Pacific - High income'')"
proof -
  have a: "passes (Some (str ''Asia'')) (region_value (region chn))"
    by (simp add: passes_def chn_def a_country_def plain_region_def str_def sublist_code prefix_code)
  have b: "\<not> passes (Some (str ''Asia'')) (region_value (region usa))"
    by (simp add: passes_def usa_def a_country_def plain_region_def str_def unit_of_def
        sublist_code prefix_code is_ws_def)
  have w: "list_all is_ws [0x00A0, 0x0020]"
    by (simp add: is_ws_def)
  then have c: "passes (Some [0x00A0, 0x0020]) t" for t
    by (simp add: passes_def)
  have g: "getCountries (countries_api two_pages) initial_state =
     (Some [usa, chn],
      \<lparr>COUNTRIES_CACHE = [usa, chn], INDICATORS_CACHE = [],
       requests = [page_request (str ''countries'') [] 1 100, page_request (str ''countries'') [] 2 100]\<rparr>)"
    by (simp add: two_pages_def two_pages_countries)
  have line: "country_line chn = str ''China (CN) - East Asia & Pacific - High income''"
    by (simp add: country_line_def chn_def a_country_def plain_region_def)
  from get_countries_filters[of "[usa, chn]" "Some (str ''Asia'')" "Some [0x00A0, 0x0020]"
      two_pages initial_state] a b c g w
  show ?thesis by (simp add: line)
qed

end
